theory Spec2Isabelle
  imports Complex_Main "HOL-Library.Extended_Nat" "HOL-Library.Sublist"
begin

chapter \<open>The embedding\<close>

section \<open>TrunkStore: inventory, usage counters and assignments\<close>

text \<open>
  Embedding of \<^verbatim>\<open>src/store/trunk-store.ts\<close>. The three maps of the class are the
  fields of the record \<open>TrunkStore\<close>. Usage counters are JavaScript numbers that only ever
  hold small naturals (they start at 0, are incremented by one and decremented by one
  when positive), so they are \<open>nat\<close>. \<^verbatim>\<open>Infinity\<close> is \<open>\<infinity>\<close> of \<open>enat\<close>.
  Node timers are explicit: \<open>timers\<close> maps every armed handle to the assignment id its
  callback releases, \<^verbatim>\<open>setTimeout\<close> takes the next unused handle and \<^verbatim>\<open>clearTimeout\<close>
  removes the handle. The random UUID and the current date are inputs.
\<close>

record Trunk =
  trunk_id :: string
  phone_number :: string
  is_verified :: "bool option"

record TrunkAssignment =
  asg_trunk_id :: string
  trunk_data :: Trunk
  assigned_at :: int
  timeout_id :: nat

record TrunkStore =
  trunksByUserToken :: "string \<rightharpoonup> Trunk list"
  trunkUsageCount :: "string \<rightharpoonup> nat"
  assignments :: "string \<rightharpoonup> TrunkAssignment"
  timers :: "nat \<rightharpoonup> string"
  nextTimer :: nat

text \<open>
  The result objects: \<^verbatim>\<open>{success: false, error}\<close> against
  \<^verbatim>\<open>{success: true, trunk, assignment_uuid}\<close> for an assignment, and
  \<^verbatim>\<open>{success: false, message: not found}\<close> against \<^verbatim>\<open>{success: true, message}\<close> for a
  release. The message texts are constants of the source and are left out.
\<close>

datatype AssignResult = AssignFailure | AssignSuccess Trunk string

datatype ReleaseResult = AssignmentNotFound | Released

definition MAX_TRUNK_USAGE :: nat where
  "MAX_TRUNK_USAGE = 4"

definition normalizeUserToken :: "string \<Rightarrow> string" where
  "normalizeUserToken userToken = filter (\<lambda>c. c \<noteq> CHR ''-'') userToken"

definition getTrunksForUser :: "TrunkStore \<Rightarrow> string \<Rightarrow> Trunk list" where
  "getTrunksForUser st userToken =
     (case trunksByUserToken st (normalizeUserToken userToken) of
        None \<Rightarrow> [] | Some ts \<Rightarrow> ts)"

definition isCustomOrTelnyxTrunk :: "Trunk \<Rightarrow> bool" where
  "isCustomOrTelnyxTrunk trunk =
     (prefix ''telnyx_'' (trunk_id trunk) \<or> prefix ''custom_'' (trunk_id trunk))"

definition getMaxUsageForTrunk :: "Trunk \<Rightarrow> enat" where
  "getMaxUsageForTrunk trunk =
     (if isCustomOrTelnyxTrunk trunk then
        (if is_verified trunk = Some True then 9 else enat MAX_TRUNK_USAGE)
      else \<infinity>)"

text \<open>\<^verbatim>\<open>this.trunkUsageCount.get(id) || 0\<close>\<close>

definition usageOf :: "(string \<rightharpoonup> nat) \<Rightarrow> string \<Rightarrow> nat" where
  "usageOf counts tid = (case counts tid of None \<Rightarrow> 0 | Some c \<Rightarrow> c)"

text \<open>The \<^verbatim>\<open>for (const trunk of trunks)\<close> loop of \<^verbatim>\<open>findAvailableTrunk\<close>.\<close>

fun findAvailableLoop :: "(string \<rightharpoonup> nat) \<Rightarrow> Trunk list \<Rightarrow> Trunk option" where
  "findAvailableLoop counts [] = None"
| "findAvailableLoop counts (trunk # rest) =
     (let maxUsage = getMaxUsageForTrunk trunk in
      if maxUsage = \<infinity> then Some trunk
      else if enat (usageOf counts (trunk_id trunk)) < maxUsage then Some trunk
      else findAvailableLoop counts rest)"

definition findAvailableTrunk :: "TrunkStore \<Rightarrow> string \<Rightarrow> Trunk option" where
  "findAvailableTrunk st userToken =
     findAvailableLoop (trunkUsageCount st) (getTrunksForUser st userToken)"

definition setTimeout :: "string \<Rightarrow> TrunkStore \<Rightarrow> nat \<times> TrunkStore" where
  "setTimeout aid st =
     (nextTimer st, st\<lparr>timers := (timers st)(nextTimer st \<mapsto> aid), nextTimer := Suc (nextTimer st)\<rparr>)"

definition clearTimeout :: "nat \<Rightarrow> TrunkStore \<Rightarrow> TrunkStore" where
  "clearTimeout h st = st\<lparr>timers := (timers st)(h := None)\<rparr>"

definition assignTrunk :: "string \<Rightarrow> string \<Rightarrow> int \<Rightarrow> TrunkStore \<Rightarrow> AssignResult \<times> TrunkStore" where
  "assignTrunk userToken assignmentId now st =
     (case findAvailableTrunk st userToken of
        None \<Rightarrow> (AssignFailure, st)
      | Some availableTrunk \<Rightarrow>
          (let currentUsage = usageOf (trunkUsageCount st) (trunk_id availableTrunk);
               st1 = st\<lparr>trunkUsageCount :=
                        (trunkUsageCount st)(trunk_id availableTrunk \<mapsto> currentUsage + 1)\<rparr>;
               (h, st2) = setTimeout assignmentId st1;
               assignment = \<lparr>asg_trunk_id = trunk_id availableTrunk,
                              trunk_data = availableTrunk,
                              assigned_at = now,
                              timeout_id = h\<rparr>
           in (AssignSuccess availableTrunk assignmentId,
               st2\<lparr>assignments := (assignments st2)(assignmentId \<mapsto> assignment)\<rparr>)))"

definition releaseAssignment :: "string \<Rightarrow> TrunkStore \<Rightarrow> ReleaseResult \<times> TrunkStore" where
  "releaseAssignment assignmentUuid st =
     (case assignments st assignmentUuid of
        None \<Rightarrow> (AssignmentNotFound, st)
      | Some assignment \<Rightarrow>
          (let st1 = clearTimeout (timeout_id assignment) st;
               currentUsage = usageOf (trunkUsageCount st1) (asg_trunk_id assignment);
               st2 = (if currentUsage > 0
                      then st1\<lparr>trunkUsageCount :=
                             (trunkUsageCount st1)(asg_trunk_id assignment \<mapsto> currentUsage - 1)\<rparr>
                      else st1)
           in (Released,
               st2\<lparr>assignments := (assignments st2)(assignmentUuid := None)\<rparr>)))"

definition releaseAssignmentById :: "string \<Rightarrow> TrunkStore \<Rightarrow> ReleaseResult \<times> TrunkStore" where
  "releaseAssignmentById assignmentId st =
     (case assignments st assignmentId of
        None \<Rightarrow> (AssignmentNotFound, st)
      | Some assignment \<Rightarrow>
          (let st1 = clearTimeout (timeout_id assignment) st;
               currentUsage = usageOf (trunkUsageCount st1) (asg_trunk_id assignment);
               st2 = (if currentUsage > 0
                      then st1\<lparr>trunkUsageCount :=
                             (trunkUsageCount st1)(asg_trunk_id assignment \<mapsto> currentUsage - 1)\<rparr>
                      else st1)
           in (Released,
               st2\<lparr>assignments := (assignments st2)(assignmentId := None)\<rparr>)))"

text \<open>
  The TTL callback armed by \<^verbatim>\<open>assignTrunk\<close> and \<^verbatim>\<open>keepAlive\<close>: when the armed timer \<open>h\<close>
  expires the runtime drops it and runs \<^verbatim>\<open>releaseAssignmentById\<close>; a handle that is not
  armed (cleared or already fired) never fires.
\<close>

definition fireTimer :: "nat \<Rightarrow> TrunkStore \<Rightarrow> TrunkStore" where
  "fireTimer h st =
     (case timers st h of
        None \<Rightarrow> st
      | Some aid \<Rightarrow> snd (releaseAssignmentById aid (st\<lparr>timers := (timers st)(h := None)\<rparr>)))"

text \<open>
  Fixtures: one unverified custom trunk for the user token \<^verbatim>\<open>U-1\<close> (stored under the
  normalised key), with a given usage count and no assignment; and the same inventory
  with one live assignment \<^verbatim>\<open>a1\<close> whose TTL timer has handle 0.
\<close>

abbreviation trunk_custom_A :: Trunk where
  "trunk_custom_A \<equiv> \<lparr>trunk_id = ''custom_A'', phone_number = ''15550100'', is_verified = Some False\<rparr>"

abbreviation store_with_usage :: "nat \<Rightarrow> TrunkStore" where
  "store_with_usage n \<equiv>
     \<lparr>trunksByUserToken = [''U1'' \<mapsto> [trunk_custom_A]],
      trunkUsageCount = [''custom_A'' \<mapsto> n],
      assignments = Map.empty, timers = Map.empty, nextTimer = 0\<rparr>"

abbreviation assignment_a1 :: TrunkAssignment where
  "assignment_a1 \<equiv>
     \<lparr>asg_trunk_id = ''custom_A'', trunk_data = trunk_custom_A, assigned_at = 0, timeout_id = 0\<rparr>"

abbreviation store_with_a1 :: TrunkStore where
  "store_with_a1 \<equiv>
     \<lparr>trunksByUserToken = [''U1'' \<mapsto> [trunk_custom_A]],
      trunkUsageCount = [''custom_A'' \<mapsto> 1],
      assignments = [''a1'' \<mapsto> assignment_a1], timers = [0 \<mapsto> ''a1''], nextTimer = 1\<rparr>"

section \<open>WebSocketService: one push socket per call and a pending buffer\<close>

text \<open>
  Embedding of \<^verbatim>\<open>sendToCallId\<close> of \<^verbatim>\<open>src/modules/websocket/websocket-service.ts\<close>. A
  payload is a flat JSON object. A socket has its \<^verbatim>\<open>readyState\<close> and the frames sent
  through it so far. Whether \<^verbatim>\<open>ws.send(JSON.stringify(message))\<close> throws is decided
  by the socket library, not by this code, so it is the input \<open>sendThrows\<close>; a send that
  throws transmits nothing.
\<close>

datatype JsonValue = JString string | JNull

type_synonym Payload = "(string \<times> JsonValue) list"

datatype ReadyState = CONNECTING | OPEN | CLOSING | CLOSED

record WebSocket =
  readyState :: ReadyState
  sent :: "Payload list"

record WebSocketService =
  connections :: "string \<rightharpoonup> WebSocket"
  pendingMessages :: "string \<rightharpoonup> Payload"

definition sendToCallId ::
  "bool \<Rightarrow> string \<Rightarrow> Payload \<Rightarrow> WebSocketService \<Rightarrow> bool \<times> WebSocketService" where
  "sendToCallId sendThrows callId message svc =
     (case connections svc callId of
        None \<Rightarrow> (False, svc\<lparr>pendingMessages := (pendingMessages svc)(callId \<mapsto> message)\<rparr>)
      | Some ws \<Rightarrow>
          if readyState ws = OPEN then
            (if sendThrows then (False, svc)
             else (True, svc\<lparr>connections :=
                            (connections svc)(callId \<mapsto> ws\<lparr>sent := sent ws @ [message]\<rparr>)\<rparr>))
          else (False, svc\<lparr>pendingMessages := (pendingMessages svc)(callId \<mapsto> message)\<rparr>))"

section \<open>CallStore and ActionController\<close>

text \<open>
  Embedding of \<^verbatim>\<open>src/store/call-store.ts\<close> and of \<^verbatim>\<open>handleAction\<close>,
  \<^verbatim>\<open>processActionLogic\<close>, \<^verbatim>\<open>getRandomizedTimeout\<close>, \<^verbatim>\<open>generateXMLResponse\<close> and
  \<^verbatim>\<open>buildNextUrl\<close> of \<^verbatim>\<open>src/api/controllers/action-controller.ts\<close>.
  A \<^verbatim>\<open>Partial<CallData>\<close> is a record of optional fields, for the three fields the
  callers ever pass. The campaign catalog (\<^verbatim>\<open>CampaignService.getActionData\<close>, an HTTP
  cache) is the input \<open>catalog\<close>. Query parameters and optional strings are
  \<open>string option\<close>, and JavaScript truthiness of such a value is \<open>truthy\<close>. The fields
  \<^verbatim>\<open>next\<close> and \<^verbatim>\<open>method\<close> of the source are \<open>next_step\<close> and \<open>http_method\<close> here (both
  names are reserved words of the prover). \<open>dgts\<close> is a count of digits, a whole number
  below \<open>10 ^ 21\<close>, which a template literal prints in decimal. The \<open>timeout\<close> of a catalog entry is a value that the
  controller never computes with: it hands it on and prints it in a template literal. Its
  type is the parameter \<open>'num\<close>, and the text a template literal prints for such a value
  is the input \<open>numberText\<close>. The environment variable \<^verbatim>\<open>ACTION_BASE_URL\<close> is the input
  \<open>envBaseUrl\<close>, and the value that \<^verbatim>\<open>Math.random()\<close> returns is the input \<open>rnd\<close>.
\<close>

datatype GatherStage = first | second

record CallData =
  uuid :: string
  state :: string
  campaign :: string
  created_at :: int
  selectedOption :: "string option"
  gatherStage :: "GatherStage option"

record CallDataUpdates =
  upd_state :: "string option"
  upd_selectedOption :: "string option"
  upd_gatherStage :: "GatherStage option"

abbreviation noUpdates :: CallDataUpdates where
  "noUpdates \<equiv> \<lparr>upd_state = None, upd_selectedOption = None, upd_gatherStage = None\<rparr>"

type_synonym CallStore = "string \<rightharpoonup> CallData"

definition getCall :: "CallStore \<Rightarrow> string \<Rightarrow> CallData option" where
  "getCall calls u = calls u"

definition updateCall :: "string \<Rightarrow> CallDataUpdates \<Rightarrow> CallStore \<Rightarrow> CallStore" where
  "updateCall u updates calls =
     (case calls u of
        None \<Rightarrow> calls
      | Some existingCall \<Rightarrow>
          calls(u \<mapsto> existingCall
            \<lparr>state := (case upd_state updates of None \<Rightarrow> state existingCall | Some s \<Rightarrow> s),
             selectedOption := (case upd_selectedOption updates of
                                  None \<Rightarrow> selectedOption existingCall | Some s \<Rightarrow> Some s),
             gatherStage := (case upd_gatherStage updates of
                               None \<Rightarrow> gatherStage existingCall | Some g \<Rightarrow> Some g)\<rparr>))"

record 'num ActionData =
  audio :: string
  next_step :: "string option"
  dgts :: "nat option"
  finishOnKey :: "string option"
  http_method :: "string option"
  timeout :: 'num

type_synonym 'num Catalog = "string \<Rightarrow> string \<Rightarrow> 'num ActionData option"

record ActionController =
  callStore :: CallStore
  webSocketService :: WebSocketService

definition truthy :: "string option \<Rightarrow> bool" where
  "truthy s = (case s of None \<Rightarrow> False | Some v \<Rightarrow> v \<noteq> [])"

text \<open>Decimal printing of a whole number, as a template literal does it.\<close>

fun showNat :: "nat \<Rightarrow> string" where
  "showNat n =
     (if n < 10 then [char_of (48 + n)] else showNat (n div 10) @ [char_of (48 + n mod 10)])"

declare showNat.simps [simp del]

text \<open>A line break of a template literal followed by \<open>n\<close> spaces of indentation.\<close>

definition nl :: "nat \<Rightarrow> string" where
  "nl n = CHR 0x0A # replicate n CHR '' ''"

text \<open>
  The error response of \<^verbatim>\<open>handleAction\<close> for a missing \<^verbatim>\<open>uuid\<close>, an unknown call and an
  unknown step. (The \<^verbatim>\<open>catch\<close> block of \<^verbatim>\<open>handleAction\<close> sends the same document with
  another indentation; nothing in the \<^verbatim>\<open>try\<close> block throws on the inputs modelled here.)
\<close>

definition errorXml :: string where
  "errorXml =
     ''<Response>'' @ nl 20 @ ''<Play>https://example.com/error.wav</Play>''
       @ nl 16 @ ''</Response>''"

definition baseUrlOf :: "string option \<Rightarrow> string" where
  "baseUrlOf envBaseUrl =
     (case envBaseUrl of
        None \<Rightarrow> ''http://localhost:3000''
      | Some u \<Rightarrow> if u = [] then ''http://localhost:3000'' else u)"

definition isTwoGatherCampaign :: "'num Catalog \<Rightarrow> string \<Rightarrow> bool" where
  "isTwoGatherCampaign catalog campaignName = (catalog campaignName ''gather1'' \<noteq> None)"

definition pushTo :: "bool \<Rightarrow> string \<Rightarrow> Payload \<Rightarrow> ActionController \<Rightarrow> ActionController" where
  "pushTo sendThrows u message ctl =
     ctl\<lparr>webSocketService := snd (sendToCallId sendThrows u message (webSocketService ctl))\<rparr>"

definition processActionLogic ::
  "'num Catalog \<Rightarrow> bool \<Rightarrow> string \<Rightarrow> string \<Rightarrow> string option \<Rightarrow> ActionController
     \<Rightarrow> ActionController" where
  "processActionLogic catalog sendThrows status u digits ctl =
     (if status = ''gather'' then
        (case digits of
           None \<Rightarrow> ctl
         | Some d \<Rightarrow>
             if d = [] then ctl
             else
               (let campaignGather = map_option campaign (getCall (callStore ctl) u);
                    ctl1 = (if truthy campaignGather
                               \<and> (case campaignGather of None \<Rightarrow> False
                                    | Some c \<Rightarrow> isTwoGatherCampaign catalog c)
                            then ctl\<lparr>callStore :=
                                   updateCall u (noUpdates\<lparr>upd_gatherStage := Some first\<rparr>)
                                     (callStore ctl)\<rparr>
                            else ctl)
                in pushTo sendThrows u
                     [(''callId'', JString u), (''SendOtp'', JString d)] ctl1))
      else if status = ''gather1'' then
        (case digits of
           None \<Rightarrow> ctl
         | Some d \<Rightarrow>
             if d = [] then ctl
             else
               (let campaignGather1 = map_option campaign (getCall (callStore ctl) u);
                    ctl1 = (if truthy campaignGather1
                               \<and> (case campaignGather1 of None \<Rightarrow> False
                                    | Some c \<Rightarrow> isTwoGatherCampaign catalog c)
                            then ctl\<lparr>callStore :=
                                   updateCall u (noUpdates\<lparr>upd_gatherStage := Some second,
                                                           upd_state := Some ''gather1''\<rparr>)
                                     (callStore ctl)\<rparr>
                            else ctl)
                in pushTo sendThrows u
                     [(''callId'', JString u), (''OtpCode'', JString d)] ctl1))
      else if status = ''option1'' \<or> status = ''option2'' then
        (case digits of
           None \<Rightarrow> ctl
         | Some d \<Rightarrow>
             if d = [] then ctl
             else pushTo sendThrows u [(''callId'', JString u), (''SendOtp'', JString d)] ctl)
      else if status = ''confirm'' then
        (let callDataConfirm = getCall (callStore ctl) u;
             campaignConfirm = map_option campaign callDataConfirm;
             gatherStageConfirm = (case callDataConfirm of None \<Rightarrow> None | Some cd \<Rightarrow> gatherStage cd);
             isTwoGatherConfirm = (truthy campaignConfirm
                                   \<and> (case campaignConfirm of None \<Rightarrow> False
                                        | Some c \<Rightarrow> isTwoGatherCampaign catalog c))
         in if isTwoGatherConfirm \<and> gatherStageConfirm = Some second then
              ctl\<lparr>callStore :=
                    updateCall u (noUpdates\<lparr>upd_state := Some ''completed''\<rparr>) (callStore ctl)\<rparr>
            else
              (case digits of
                 None \<Rightarrow> ctl
               | Some d \<Rightarrow>
                   if d = [] then ctl
                   else
                     (let selected = (case callDataConfirm of None \<Rightarrow> None
                                      | Some cd \<Rightarrow> selectedOption cd);
                          ctl1 = (if isTwoGatherConfirm
                                     \<and> (gatherStageConfirm = None \<or> gatherStageConfirm = Some first)
                                  then ctl\<lparr>callStore :=
                                         updateCall u (noUpdates\<lparr>upd_gatherStage := Some first\<rparr>)
                                           (callStore ctl)\<rparr>
                                  else ctl)
                      in pushTo sendThrows u
                           [(''callId'', JString u), (''OtpCode'', JString d),
                            (''selectedOption'',
                               (case selected of None \<Rightarrow> JNull
                                | Some s \<Rightarrow> if s = [] then JNull else JString s))]
                           ctl1)))
      else ctl)"

text \<open>
  The arithmetic of \<^verbatim>\<open>getRandomizedTimeout\<close> is that of IEEE 754 double precision. A
  double in \<open>[0, 1)\<close> is a whole multiple of a negative power of two: the pair \<open>(m, p)\<close>
  stands for \<open>m / 2 ^ p\<close>, and the doubles in \<open>[0, 1)\<close>, the values \<^verbatim>\<open>Math.random()\<close> can
  return, are what the pairs with \<open>m < 2 ^ 53\<close>, \<open>m < 2 ^ p\<close> and \<open>p \<le> 1074\<close> stand for.

  A product is the exact product rounded to 53 significant bits, to the nearest such
  number and to the one with the even significand when two are equally near.
  \<open>excessBits n\<close> is the number of bits of \<open>n\<close> beyond 53, \<open>roundHalfEven n q\<close> the multiple
  of \<open>q\<close> nearest to \<open>n\<close>, and \<open>roundDouble n\<close> the whole number \<open>n\<close> rounded to 53
  significant bits. \<open>timesDouble x c\<close> is the product of the double \<open>x\<close> and the whole number
  \<open>c\<close>, in the same unit \<open>1 / 2 ^ p\<close> as \<open>x\<close>, and \<open>floorDouble\<close> is \<^verbatim>\<open>Math.floor\<close>.
\<close>

type_synonym Double = "nat \<times> nat"


function excessBits :: "nat \<Rightarrow> nat" where
  "excessBits n = (if n < 2 ^ 53 then 0 else Suc (excessBits (n div 2)))"
  by pat_completeness auto
termination
  by (relation "measure id") auto

declare excessBits.simps [simp del]

definition roundHalfEven :: "nat \<Rightarrow> nat \<Rightarrow> nat" where
  "roundHalfEven n q =
     (let d = n div q; r = n mod q
      in if 2 * r < q then d * q
         else if q < 2 * r then (d + 1) * q
         else if even d then d * q else (d + 1) * q)"

definition roundDouble :: "nat \<Rightarrow> nat" where
  "roundDouble n = roundHalfEven n (2 ^ excessBits n)"

definition timesDouble :: "Double \<Rightarrow> nat \<Rightarrow> Double" where
  "timesDouble x c = (roundDouble (fst x * c), snd x)"

definition floorDouble :: "Double \<Rightarrow> nat" where
  "floorDouble x = fst x div 2 ^ snd x"

text \<open>
  The number \<^verbatim>\<open>getRandomizedTimeout\<close> returns is either the whole number it computed or
  the timeout of the catalog it was given; a template literal prints the first in decimal
  and the second as \<open>numberText\<close> says.
\<close>

datatype 'num TimeoutValue = RandomTimeout nat | OriginalTimeout 'num

definition timeoutText :: "('num \<Rightarrow> string) \<Rightarrow> 'num TimeoutValue \<Rightarrow> string" where
  "timeoutText numberText t =
     (case t of RandomTimeout k \<Rightarrow> showNat k | OriginalTimeout v \<Rightarrow> numberText v)"

definition getRandomizedTimeout :: "Double \<Rightarrow> string \<Rightarrow> 'num \<Rightarrow> 'num TimeoutValue" where
  "getRandomizedTimeout rnd status originalTimeout =
     (if status = ''answer'' then
        (let minT = 10; maxT = 15;
             randomTimeout = floorDouble (timesDouble rnd (maxT - minT + 1)) + minT
         in RandomTimeout randomTimeout)
      else OriginalTimeout originalTimeout)"

definition buildAudioPath :: "string \<Rightarrow> string \<Rightarrow> string" where
  "buildAudioPath campaignName status = ''custom/'' @ campaignName @ ''/'' @ status"

text \<open>
  \<^verbatim>\<open>nextStepMap[currentStatus] || 'completed'\<close>, for the three keys of the object literal
  (a status that names a property of \<^verbatim>\<open>Object.prototype\<close> is not a step of any catalog).
\<close>

definition buildNextUrl :: "string option \<Rightarrow> string \<Rightarrow> string" where
  "buildNextUrl envBaseUrl currentStatus =
     (let nextStep = (if currentStatus = ''answer'' then ''gather''
                      else if currentStatus = ''gather'' then ''confirm''
                      else if currentStatus = ''invalid'' then ''gather''
                      else ''completed'')
      in baseUrlOf envBaseUrl @ ''/action/'' @ nextStep)"

definition isAbsoluteUrl :: "string \<Rightarrow> bool" where
  "isAbsoluteUrl n = (prefix ''http://'' n \<or> prefix ''https://'' n)"

definition generateXMLResponse ::
  "string option \<Rightarrow> ('num \<Rightarrow> string) \<Rightarrow> Double \<Rightarrow> string \<Rightarrow> 'num ActionData \<Rightarrow> string
     \<Rightarrow> string \<Rightarrow> string" where
  "generateXMLResponse envBaseUrl numberText rnd status actionData u campaignName =
     (let audioPath = buildAudioPath campaignName status in
      if status = ''confirm'' then
        ''<Response>'' @ nl 16 @ ''<Play timeout=\"'' @ numberText (timeout actionData) @ ''\">''
          @ audioPath @ ''</Play>'' @ nl 12 @ ''</Response>''
      else
        (let finalTimeout = getRandomizedTimeout rnd status (timeout actionData) in
         if status = ''completed'' \<or> status = ''completed_option1''
            \<or> status = ''completed_option2'' then
           ''<Response>'' @ nl 16 @ ''<Play>'' @ audioPath @ ''</Play>'' @ nl 12 @ ''</Response>''
         else
           (let nextUrl =
                  (if status = ''gather1'' then baseUrlOf envBaseUrl @ ''/action/gather1''
                   else if status = ''invalid'' then
                     (case next_step actionData of
                        None \<Rightarrow> buildNextUrl envBaseUrl status
                      | Some n \<Rightarrow>
                          if n \<noteq> [] \<and> isAbsoluteUrl n then n
                          else if n \<noteq> [] then baseUrlOf envBaseUrl @ ''/action/'' @ n
                          else buildNextUrl envBaseUrl status)
                   else
                     (case next_step actionData of
                        None \<Rightarrow> buildNextUrl envBaseUrl status
                      | Some n \<Rightarrow>
                          if n \<noteq> [] \<and> isAbsoluteUrl n then n
                          else if n \<noteq> [] then baseUrlOf envBaseUrl @ ''/action/'' @ n
                          else buildNextUrl envBaseUrl status));
                useDynamicMode = (case finishOnKey actionData of
                                    None \<Rightarrow> False | Some k \<Rightarrow> length k = 1);
                numDigits = (if useDynamicMode then 0
                             else (case dgts actionData of None \<Rightarrow> 0 | Some n \<Rightarrow> n));
                finishKeyAttr = (if useDynamicMode
                                 then (case finishOnKey actionData of None \<Rightarrow> [] | Some k \<Rightarrow> k)
                                 else [])
            in ''<Response>'' @ nl 12 @ ''<Play>'' @ audioPath @ ''</Play>''
                 @ nl 12 @ ''<Gather''
                 @ nl 16 @ ''input=\"speech dtmf\"''
                 @ nl 16 @ ''action=\"'' @ nextUrl @ ''?uuid='' @ u @ ''\"''
                 @ nl 16 @ ''timeout=\"'' @ timeoutText numberText finalTimeout @ ''\"''
                 @ nl 16 @ ''numDigits=\"'' @ showNat numDigits @ ''\"''
                 @ (if finishKeyAttr \<noteq> []
                    then nl 16 @ ''finishOnKey=\"'' @ finishKeyAttr @ ''\"'' else [])
                 @ nl 12 @ ''/>''
                 @ nl 8 @ ''</Response>'')))"

definition handleAction ::
  "'num Catalog \<Rightarrow> string option \<Rightarrow> ('num \<Rightarrow> string) \<Rightarrow> Double \<Rightarrow> bool \<Rightarrow> string
     \<Rightarrow> string option \<Rightarrow> string option \<Rightarrow> ActionController \<Rightarrow> string \<times> ActionController" where
  "handleAction catalog envBaseUrl numberText rnd sendThrows status0 uuidQ digitsQ ctl =
     (case uuidQ of
        None \<Rightarrow> (errorXml, ctl)
      | Some u \<Rightarrow>
          if u = [] then (errorXml, ctl)
          else
            (case getCall (callStore ctl) u of
               None \<Rightarrow> (errorXml, ctl)
             | Some callData \<Rightarrow>
                 (let campaignName = campaign callData;
                      (status, ctl1) =
                        (if status0 = ''options'' \<and> truthy digitsQ then
                           (if digitsQ = Some ''1'' then
                              (''option1'',
                               ctl\<lparr>callStore :=
                                     updateCall u (noUpdates\<lparr>upd_selectedOption := Some ''1''\<rparr>)
                                       (callStore ctl)\<rparr>)
                            else
                              (''option2'',
                               ctl\<lparr>callStore :=
                                     updateCall u (noUpdates\<lparr>upd_selectedOption := Some ''2''\<rparr>)
                                       (callStore ctl)\<rparr>))
                         else (status0, ctl))
                  in case catalog campaignName status of
                       None \<Rightarrow> (errorXml, ctl1)
                     | Some actionData \<Rightarrow>
                         (let ctl2 = processActionLogic catalog sendThrows status u digitsQ ctl1;
                              gather1Next = (case catalog campaignName ''gather1'' of
                                               None \<Rightarrow> None | Some g \<Rightarrow> next_step g)
                          in if status = ''gather1'' \<and> truthy digitsQ \<and> truthy gather1Next then
                               (let n = (case gather1Next of None \<Rightarrow> [] | Some v \<Rightarrow> v);
                                    redirectUrl = (if prefix ''http'' n then n
                                                   else baseUrlOf envBaseUrl @ ''/action/'' @ n)
                                in (''<Response>'' @ nl 24 @ ''<Redirect>'' @ redirectUrl
                                      @ ''?uuid='' @ u @ ''</Redirect>'' @ nl 20 @ ''</Response>'',
                                    ctl2))
                             else
                               (generateXMLResponse envBaseUrl numberText rnd status actionData u
                                  campaignName,
                                ctl2)))))"

text \<open>
  Fixtures: a push registry with one open socket for \<^verbatim>\<open>c1\<close> and none for any other call;
  a catalog whose campaign \<^verbatim>\<open>venmo_fraude\<close> has the steps \<^verbatim>\<open>option1\<close> and \<^verbatim>\<open>option2\<close>, with
  a timeout of 5 that prints as \<open>showNat\<close> says; the doubles 1/2 and 7505999378950826 / 2 ^ 53
  (just below 5/6);
  and a controller that knows the call \<^verbatim>\<open>call_1\<close> of that campaign.
\<close>

abbreviation registry_c1_open :: WebSocketService where
  "registry_c1_open \<equiv>
     \<lparr>connections = [''c1'' \<mapsto> \<lparr>readyState = OPEN, sent = []\<rparr>],
      pendingMessages = Map.empty\<rparr>"

abbreviation step_5s :: "nat ActionData" where
  "step_5s \<equiv> \<lparr>audio = ''prompt.wav'', next_step = Some ''confirm'', dgts = Some 4,
               finishOnKey = None, http_method = None, timeout = 5\<rparr>"

abbreviation catalog_menu :: "nat Catalog" where
  "catalog_menu \<equiv> (\<lambda>c s. if c = ''venmo_fraude'' \<and> (s = ''option1'' \<or> s = ''option2'')
                           then Some step_5s else None)"

abbreviation one_half :: Double where
  "one_half \<equiv> (4503599627370496, 53)"


abbreviation call_1 :: CallData where
  "call_1 \<equiv> \<lparr>uuid = ''call_1'', state = ''pending'', campaign = ''venmo_fraude'',
              created_at = 0, selectedOption = None, gatherStage = None\<rparr>"

abbreviation controller_call_1 :: ActionController where
  "controller_call_1 \<equiv>
     \<lparr>callStore = [''call_1'' \<mapsto> call_1],
      webSocketService = \<lparr>connections = Map.empty, pendingMessages = Map.empty\<rparr>\<rparr>"

section \<open>QueueManager: one rate-limited queue per trunk\<close>

text \<open>
  Embedding of \<^verbatim>\<open>QueueManager\<close> (\<^verbatim>\<open>modules/queue/queue-manager\<close>). Times are the
  integer milliseconds of \<^verbatim>\<open>Date.now()\<close>. A queue element is identified by its id; what
  its \<^verbatim>\<open>callFunction\<close> does belongs to the caller, and only the moments at which it is
  invoked and at which it settles matter here.

  \<^verbatim>\<open>processQueue\<close> is an \<^verbatim>\<open>async\<close> function that suspends at two places: in
  \<^verbatim>\<open>await this.sleep(waitTime)\<close> and in \<^verbatim>\<open>await element.callFunction()\<close>. The guard on
  \<open>processing\<close> admits one running instance per trunk, and \<open>activity\<close> records where that
  instance is suspended: \<open>Sleeping d\<close> in the sleep, where \<open>d\<close> is the time at which the
  sleep is to end (the time of the loop body plus \<^verbatim>\<open>waitTime\<close>), \<open>Calling\<close> in the call,
  \<open>Idle\<close> when no instance runs. The synchronous code between two suspensions is one
  function of the model: \<open>enqueue\<close>, \<open>timerFired\<close> and \<open>callSettled\<close>. After the sleep the
  code starts the call without reading the clock again, so \<open>timerFired\<close> starts it at
  whatever time the timer fires. \<^verbatim>\<open>QueueManager.clear\<close> has no caller in the repository
  and is left out, so the array that \<^verbatim>\<open>processQueue\<close> holds is always the one stored in
  \<open>queues\<close>.

  \<open>journal\<close> is the record of what the queue did, oldest entry first: every invocation
  of a \<^verbatim>\<open>callFunction\<close> (the PBX originate of the trunk) and every moment one settled,
  successfully or not. \<open>clock\<close> is the time of the latest event.
\<close>

record QueueElement =
  element_id :: string

datatype Activity = Idle | Sleeping int | Calling

datatype Moment = Started int | Finished bool int

record QueueManager =
  queues :: "string \<rightharpoonup> QueueElement list"
  processing :: "string set"
  lastCallTime :: "string \<rightharpoonup> int"
  activity :: "string \<Rightarrow> Activity"
  journal :: "(string \<times> Moment) list"
  clock :: int

datatype EnqueueResult = QueueFull string | Enqueued

definition PROCESS_DELAY :: int where
  "PROCESS_DELAY = 1100"

definition QUEUE_LIMIT :: nat where
  "QUEUE_LIMIT = 50"

definition newQueueManager :: "int \<Rightarrow> QueueManager" where
  "newQueueManager t0 =
     \<lparr>queues = Map.empty, processing = {}, lastCallTime = Map.empty,
      activity = (\<lambda>_. Idle), journal = [], clock = t0\<rparr>"

text \<open>\<^verbatim>\<open>this.lastCallTime.get(trunkId) || 0\<close>\<close>

definition lastTimeOf :: "QueueManager \<Rightarrow> string \<Rightarrow> int" where
  "lastTimeOf qm trunkId = (case lastCallTime qm trunkId of None \<Rightarrow> 0 | Some t \<Rightarrow> t)"

text \<open>
  The exits of \<^verbatim>\<open>processQueue\<close>: the \<^verbatim>\<open>finally\<close> block deletes the trunk from
  \<open>processing\<close>.
\<close>

definition leaveProcessQueue :: "string \<Rightarrow> QueueManager \<Rightarrow> QueueManager" where
  "leaveProcessQueue trunkId qm =
     qm\<lparr>processing := processing qm - {trunkId}, activity := (activity qm)(trunkId := Idle)\<rparr>"

text \<open>
  \<^verbatim>\<open>const element = queue[0]; await element.callFunction()\<close> at the time \<open>now\<close>. On an
  empty array \<^verbatim>\<open>element\<close> is undefined: the call raises a TypeError, the \<^verbatim>\<open>catch\<close>
  block raises again on \<^verbatim>\<open>element.id\<close>, and the two \<^verbatim>\<open>finally\<close> blocks run.
\<close>

definition invokeHead :: "int \<Rightarrow> string \<Rightarrow> QueueManager \<Rightarrow> QueueManager" where
  "invokeHead now trunkId qm =
     (case queues qm trunkId of
        Some (element # rest) \<Rightarrow>
          qm\<lparr>activity := (activity qm)(trunkId := Calling),
             journal := journal qm @ [(trunkId, Started now)]\<rparr>
      | _ \<Rightarrow> leaveProcessQueue trunkId qm)"

text \<open>
  One test of \<^verbatim>\<open>while (queue && queue.length > 0)\<close> and the body up to its first
  \<^verbatim>\<open>await\<close>; \<open>now\<close> is the value of \<^verbatim>\<open>Date.now()\<close> read in the body.
\<close>

definition whileLoop :: "int \<Rightarrow> string \<Rightarrow> QueueManager \<Rightarrow> QueueManager" where
  "whileLoop now trunkId qm =
     (case queues qm trunkId of
        None \<Rightarrow> leaveProcessQueue trunkId qm
      | Some [] \<Rightarrow> leaveProcessQueue trunkId qm
      | Some (element # rest) \<Rightarrow>
          (let lastTime = lastTimeOf qm trunkId;
               timeSinceLastCall = now - lastTime
           in if timeSinceLastCall < PROCESS_DELAY then
                (let waitTime = PROCESS_DELAY - timeSinceLastCall
                 in qm\<lparr>activity := (activity qm)(trunkId := Sleeping (now + waitTime))\<rparr>)
              else invokeHead now trunkId qm))"

definition processQueue :: "int \<Rightarrow> string \<Rightarrow> QueueManager \<Rightarrow> QueueManager" where
  "processQueue now trunkId qm =
     (if trunkId \<in> processing qm then qm
      else whileLoop now trunkId (qm\<lparr>processing := insert trunkId (processing qm)\<rparr>))"

definition enqueue ::
  "int \<Rightarrow> string \<Rightarrow> QueueElement \<Rightarrow> QueueManager \<Rightarrow> EnqueueResult \<times> QueueManager" where
  "enqueue now trunkId queueElement qm =
     (let qm1 = (if queues qm trunkId = None
                 then qm\<lparr>queues := (queues qm)(trunkId \<mapsto> [])\<rparr> else qm);
          queue = (case queues qm1 trunkId of None \<Rightarrow> [] | Some q \<Rightarrow> q)
      in if length queue \<ge> QUEUE_LIMIT then (QueueFull trunkId, qm1)
         else
           (let qm2 = qm1\<lparr>queues := (queues qm1)(trunkId \<mapsto> queue @ [queueElement])\<rparr>
            in (Enqueued,
                if trunkId \<notin> processing qm2 then processQueue now trunkId qm2 else qm2)))"








text \<open>
  The facts about a queue manager reached by a timely run that the spacing rests on, for
  one trunk: no entry of the journal lies in the future; a trunk whose instance of
  \<^verbatim>\<open>processQueue\<close> is suspended is in \<open>processing\<close>; a sleep is set to end no earlier than
  \<open>PROCESS_DELAY\<close> after the last settled call; every call that settled did so no later
  than \<open>lastCallTime\<close> says; and unless a call is in flight, every call started no later
  than that.
\<close>

definition momentTime :: "Moment \<Rightarrow> int" where
  "momentTime m = (case m of Started s \<Rightarrow> s | Finished ok f \<Rightarrow> f)"

definition spacedPair :: "int \<Rightarrow> string \<times> Moment \<Rightarrow> string \<times> Moment \<Rightarrow> bool" where
  "spacedPair early a b =
     (case snd b of
        Started s \<Rightarrow> fst a = fst b \<longrightarrow> momentTime (snd a) + PROCESS_DELAY - early \<le> s
      | Finished ok f \<Rightarrow> True)"

definition queueInvariant :: "int \<Rightarrow> QueueManager \<Rightarrow> bool" where
  "queueInvariant early qm =
     ((\<forall>e \<in> set (journal qm). momentTime (snd e) \<le> clock qm)
      \<and> (\<forall>trunkId. activity qm trunkId \<noteq> Idle \<longrightarrow> trunkId \<in> processing qm)
      \<and> (\<forall>trunkId d. activity qm trunkId = Sleeping d \<longrightarrow>
            lastTimeOf qm trunkId + PROCESS_DELAY \<le> d)
      \<and> (\<forall>trunkId ok f. (trunkId, Finished ok f) \<in> set (journal qm) \<longrightarrow>
            f \<le> lastTimeOf qm trunkId)
      \<and> (\<forall>trunkId s. activity qm trunkId \<noteq> Calling \<longrightarrow>
            (trunkId, Started s) \<in> set (journal qm) \<longrightarrow> s \<le> lastTimeOf qm trunkId)
      \<and> sorted_wrt (spacedPair early) (journal qm))"



abbreviation full_queue :: QueueManager where
  "full_queue \<equiv>
     \<lparr>queues = [''T'' \<mapsto> replicate 50 \<lparr>element_id = ''job''\<rparr>], processing = {''T''},
      lastCallTime = Map.empty, activity = (\<lambda>_. Idle)(''T'' := Calling),
      journal = [(''T'', Started 1000000)], clock = 1000000\<rparr>"

section \<open>ChannelManager: the IVR session of one channel\<close>

text \<open>
  Embedding of \<^verbatim>\<open>src/modules/ari/channel-manager.ts\<close>. The fields of the class are the
  fields of the record \<open>ChannelManager\<close> (\<^verbatim>\<open>this.id\<close> is \<open>channelId\<close>). Three more fields
  make the effects of the code explicit: \<open>armed\<close> holds the pending Node timers of the
  session, each handle with the callback it will run; \<open>nextHandle\<close> is the handle the next
  \<^verbatim>\<open>setTimeout\<close> returns; \<open>outbound\<close> lists, oldest first, every request the session issued
  through its REST client: the fetch of an action script and the PBX calls play,
  stopPlayback and hangup.

  The answers of the outside world are the record \<open>Pbx\<close>: what a fetch returns (a failure,
  a document without \<^verbatim>\<open>Response\<close>, or the action list \<^verbatim>\<open>parseXMLToActions\<close> builds from it),
  whether a PBX request is rejected, and the time-and-random part of a fresh playback id.
  Each of them may depend on everything requested so far.

  The attributes of an action are the XML attributes, that is strings. \<^verbatim>\<open>Number(..)\<close> and
  the numeric comparisons of the code are modelled by \<open>toNumber\<close> for whole decimal
  numerals, everything else being \<^verbatim>\<open>NaN\<close> (\<open>None\<close>); \<open>numDigits\<close> and \<open>timeoutSeconds\<close> hold
  the number the stored value stands for.

  Every handler is run to its end before the next event is handled. A handler that has
  not finished after the given number of nested \<^verbatim>\<open>runAction\<close> calls (a chain of redirects
  need not end) has the value \<open>None\<close>.
\<close>

record ActionAttributes =
  attr_timeout :: "string option"
  attr_numDigits :: "string option"
  attr_finishOnKey :: "string option"
  attr_action :: "string option"
  attr_Digits :: "string option"

abbreviation noAttributes :: ActionAttributes where
  "noAttributes \<equiv> \<lparr>attr_timeout = None, attr_numDigits = None, attr_finishOnKey = None,
                    attr_action = None, attr_Digits = None\<rparr>"

record Action =
  name :: string
  data :: "string option"
  attributes :: ActionAttributes

record GatherInstance =
  digits :: string
  running :: bool
  numDigits :: "int option"
  gatherFinishOnKey :: "string option"
  gatherAction :: "string option"
  gatherTimeout :: "nat option"
  timeoutSeconds :: "int option"

datatype TimerCallback = PlayTimeout | GatherTimeout | DestroyTimeout

datatype Outbound =
    FetchActionXML string ActionAttributes
  | ApiPlay string string string
  | ApiStopPlayback string
  | ApiHangup string

datatype FetchResult = FetchFailed | NoResponse | Parsed "Action list"

record Pbx =
  fetchResult :: "Outbound list \<Rightarrow> FetchResult"
  requestFails :: "Outbound list \<Rightarrow> bool"
  playbackStamp :: "Outbound list \<Rightarrow> string"

record ChannelManager =
  channelId :: string
  remainingActions :: "Action list"
  gatherInstance :: GatherInstance
  playbackId :: string
  isPlaying :: bool
  currentTimeout :: int
  timeoutHandle :: "nat option"
  pendingAction :: "(string \<times> ActionAttributes) option"
  currentActionStatus :: string
  isDestroyed :: bool
  armed :: "nat \<rightharpoonup> TimerCallback"
  nextHandle :: nat
  outbound :: "Outbound list"

fun natOfDigits :: "string \<Rightarrow> nat \<Rightarrow> nat option" where
  "natOfDigits [] acc = Some acc"
| "natOfDigits (c # cs) acc =
     (if 48 \<le> (of_char c :: nat) \<and> (of_char c :: nat) \<le> 57
      then natOfDigits cs (acc * 10 + (of_char c - 48)) else None)"

definition toNumber :: "string \<Rightarrow> int option" where
  "toNumber s =
     (case s of
        [] \<Rightarrow> Some 0
      | c # cs \<Rightarrow>
          if c = CHR ''-'' \<and> cs \<noteq> [] then map_option (\<lambda>n. - int n) (natOfDigits cs 0)
          else map_option int (natOfDigits s 0))"

text \<open>\<^verbatim>\<open>setTimeout\<close>, \<^verbatim>\<open>clearTimeout\<close> on the two handles of the session, and a request.\<close>

definition setTimer :: "TimerCallback \<Rightarrow> ChannelManager \<Rightarrow> nat \<times> ChannelManager" where
  "setTimer callback s =
     (nextHandle s,
      s\<lparr>armed := (armed s)(nextHandle s \<mapsto> callback), nextHandle := Suc (nextHandle s)\<rparr>)"

definition clearTimeoutHandle :: "ChannelManager \<Rightarrow> ChannelManager" where
  "clearTimeoutHandle s =
     (case timeoutHandle s of
        None \<Rightarrow> s
      | Some h \<Rightarrow> s\<lparr>armed := (armed s)(h := None), timeoutHandle := None\<rparr>)"

definition clearGatherTimeout :: "ChannelManager \<Rightarrow> ChannelManager" where
  "clearGatherTimeout s =
     (case gatherTimeout (gatherInstance s) of
        None \<Rightarrow> s
      | Some h \<Rightarrow> s\<lparr>armed := (armed s)(h := None),
                    gatherInstance := (gatherInstance s)\<lparr>gatherTimeout := None\<rparr>\<rparr>)"

definition request :: "Outbound \<Rightarrow> ChannelManager \<Rightarrow> ChannelManager" where
  "request r s = s\<lparr>outbound := outbound s @ [r]\<rparr>"

text \<open>
  \<^verbatim>\<open>destroy\<close>: the error of the hangup request is only logged, so the result does not
  depend on whether the PBX rejects it.
\<close>

definition destroy :: "Pbx \<Rightarrow> ChannelManager \<Rightarrow> ChannelManager" where
  "destroy pbx s =
     (if isDestroyed s then s
      else
        (let s1 = s\<lparr>isDestroyed := True\<rparr>;
             s2 = clearTimeoutHandle s1;
             s3 = clearGatherTimeout s2;
             s4 = s3\<lparr>isPlaying := False, playbackId := []\<rparr>
         in request (ApiHangup (channelId s4)) s4))"

definition addUuidToUrl :: "ChannelManager \<Rightarrow> string \<Rightarrow> string" where
  "addUuidToUrl s actionUrl =
     (let separator = (if sublist ''?'' actionUrl then ''&'' else ''?'')
      in actionUrl @ separator @ ''uuid='' @ channelId s)"

definition getActions :: "Pbx \<Rightarrow> string \<Rightarrow> ActionAttributes \<Rightarrow> ChannelManager \<Rightarrow> ChannelManager" where
  "getActions pbx actionUrl params s =
     (let finalUrl = (if sublist ''uuid='' actionUrl then actionUrl else addUuidToUrl s actionUrl);
          s1 = (if sublist ''/completed'' finalUrl then s\<lparr>currentActionStatus := ''completed''\<rparr>
                else if sublist ''/invalid'' finalUrl then s\<lparr>currentActionStatus := ''invalid''\<rparr>
                else if sublist ''/gather'' finalUrl then s\<lparr>currentActionStatus := ''gather''\<rparr>
                else if sublist ''/answer'' finalUrl then s\<lparr>currentActionStatus := ''answer''\<rparr>
                else s);
          s2 = request (FetchActionXML finalUrl params) s1
      in case fetchResult pbx (outbound s2) of
           FetchFailed \<Rightarrow> destroy pbx s2
         | NoResponse \<Rightarrow> s2
         | Parsed actions \<Rightarrow> s2\<lparr>remainingActions := actions\<rparr>)"

text \<open>The body of \<^verbatim>\<open>gather\<close>; nothing in it can throw.\<close>

definition gather :: "ActionAttributes \<Rightarrow> ChannelManager \<Rightarrow> ChannelManager" where
  "gather attrib s =
     (let g = (gatherInstance s)
                \<lparr>running := True,
                 numDigits := (case attr_numDigits attrib of
                                 None \<Rightarrow> Some 1
                               | Some v \<Rightarrow> if v = [] then Some 1 else toNumber v),
                 gatherFinishOnKey := attr_finishOnKey attrib,
                 gatherAction := attr_action attrib,
                 timeoutSeconds := (case attr_timeout attrib of
                                      None \<Rightarrow> Some 5
                                    | Some v \<Rightarrow> if v = [] then Some 5 else toNumber v),
                 digits := []\<rparr>;
          s1 = s\<lparr>gatherInstance := g\<rparr>
      in if isPlaying s1 then clearGatherTimeout s1
         else
           (let (h, s2) = setTimer GatherTimeout s1
            in s2\<lparr>gatherInstance := (gatherInstance s2)\<lparr>gatherTimeout := Some h\<rparr>\<rparr>))"

text \<open>\<^verbatim>\<open>hangup\<close>: the request, then \<^verbatim>\<open>destroy\<close>, in the \<^verbatim>\<open>try\<close> as in the \<^verbatim>\<open>catch\<close> branch.\<close>

definition hangup :: "Pbx \<Rightarrow> ChannelManager \<Rightarrow> ChannelManager" where
  "hangup pbx s =
     (let s1 = request (ApiHangup (channelId s)) s
      in if requestFails pbx (outbound s1) then destroy pbx s1 else destroy pbx s1)"

text \<open>
  \<^verbatim>\<open>runAction\<close>, with \<^verbatim>\<open>play\<close>, \<^verbatim>\<open>redirect\<close> and \<^verbatim>\<open>setAction\<close> in place. A rejected play
  request runs \<^verbatim>\<open>runAction\<close> in the \<^verbatim>\<open>catch\<close> block of \<^verbatim>\<open>play\<close> and then once more after
  \<^verbatim>\<open>play\<close> returned.
\<close>

fun runAction :: "nat \<Rightarrow> Pbx \<Rightarrow> ChannelManager \<Rightarrow> ChannelManager option" where
  "runAction 0 pbx s = None"
| "runAction (Suc n) pbx s =
     (case remainingActions s of
        [] \<Rightarrow> Some s
      | action # rest \<Rightarrow>
          (let s1 = clearTimeoutHandle (s\<lparr>remainingActions := rest\<rparr>);
               s2 = s1\<lparr>currentTimeout :=
                         (case attr_timeout (attributes action) of
                            None \<Rightarrow> 0
                          | Some t \<Rightarrow> (case toNumber t of None \<Rightarrow> 0 | Some v \<Rightarrow> v))\<rparr>
           in if name action = ''play'' then
                (case data action of
                   None \<Rightarrow> runAction n pbx s2
                 | Some audioUrl \<Rightarrow>
                     if audioUrl = [] then runAction n pbx s2
                     else
                       (let newId = channelId s2 @ ''_'' @ playbackStamp pbx (outbound s2);
                            s3 = request (ApiPlay (channelId s2) audioUrl newId)
                                   (s2\<lparr>playbackId := newId, isPlaying := True\<rparr>)
                        in if requestFails pbx (outbound s3) then
                             (case runAction n pbx s3 of
                                None \<Rightarrow> None
                              | Some s4 \<Rightarrow> runAction n pbx s4)
                           else if currentTimeout s3 > 0 then
                             (let (h, s4) = setTimer PlayTimeout s3
                              in runAction n pbx (s4\<lparr>timeoutHandle := Some h\<rparr>))
                           else runAction n pbx s3))
              else if name action = ''gather'' then Some (gather (attributes action) s2)
              else if name action = ''redirect'' then
                (case data action of
                   None \<Rightarrow> Some s2
                 | Some url \<Rightarrow>
                     if url = [] then Some s2
                     else runAction n pbx
                            (getActions pbx url (attributes action) (clearTimeoutHandle s2)))
              else if name action = ''hangup'' then Some (hangup pbx s2)
              else runAction n pbx s2))"

definition setAction ::
  "nat \<Rightarrow> Pbx \<Rightarrow> string \<Rightarrow> ActionAttributes \<Rightarrow> ChannelManager \<Rightarrow> ChannelManager option" where
  "setAction n pbx url params s = runAction n pbx (getActions pbx url params (clearTimeoutHandle s))"

text \<open>
  The constructor, and \<^verbatim>\<open>start\<close> for the action URL of the call (\<^verbatim>\<open>this.call.action_url\<close>).
\<close>

definition newChannelManager :: "string \<Rightarrow> ChannelManager" where
  "newChannelManager cid =
     \<lparr>channelId = cid, remainingActions = [],
      gatherInstance = \<lparr>digits = [], running = False, numDigits = Some 1,
                        gatherFinishOnKey = None, gatherAction = None,
                        gatherTimeout = None, timeoutSeconds = Some 5\<rparr>,
      playbackId = [], isPlaying = False, currentTimeout = 0, timeoutHandle = None,
      pendingAction = None, currentActionStatus = [], isDestroyed = False,
      armed = Map.empty, nextHandle = 0, outbound = []\<rparr>"

definition start :: "nat \<Rightarrow> Pbx \<Rightarrow> string option \<Rightarrow> ChannelManager \<Rightarrow> ChannelManager option" where
  "start n pbx action_url s =
     (case action_url of
        None \<Rightarrow> Some s
      | Some url \<Rightarrow>
          if url = [] then Some s
          else runAction n pbx (getActions pbx url noAttributes s))"

text \<open>
  The end of a gather in \<^verbatim>\<open>onDTMFReceived\<close>, written twice in the source: stop the
  gather, cancel its timer and, when the gather has an action URL, load and run the next
  script with the collected digits.
\<close>

definition finishGather :: "nat \<Rightarrow> Pbx \<Rightarrow> ChannelManager \<Rightarrow> ChannelManager option" where
  "finishGather n pbx s =
     (let s1 = clearGatherTimeout (s\<lparr>gatherInstance := (gatherInstance s)\<lparr>running := False\<rparr>\<rparr>)
      in if truthy (gatherAction (gatherInstance s1)) then
           (case gatherAction (gatherInstance s1) of
              None \<Rightarrow> Some s1
            | Some a \<Rightarrow>
                runAction n pbx
                  (getActions pbx a (noAttributes\<lparr>attr_Digits := Some (digits (gatherInstance s1))\<rparr>)
                     s1))
         else Some s1)"

definition onDTMFReceived :: "nat \<Rightarrow> Pbx \<Rightarrow> string \<Rightarrow> ChannelManager \<Rightarrow> ChannelManager option" where
  "onDTMFReceived n pbx digit s =
     (let s1 = (if isPlaying s \<and> playbackId s \<noteq> [] then
                  (let s0 = request (ApiStopPlayback (playbackId s)) s
                   in if requestFails pbx (outbound s0)
                      then s0\<lparr>isPlaying := False, playbackId := []\<rparr>
                      else s0\<lparr>isPlaying := False, playbackId := []\<rparr>)
                else s);
          s2 = clearTimeoutHandle s1
      in if running (gatherInstance s2) then
           (if truthy (gatherFinishOnKey (gatherInstance s2))
               \<and> Some digit = gatherFinishOnKey (gatherInstance s2)
            then finishGather n pbx s2
            else
              (let s3 = s2\<lparr>gatherInstance :=
                           (gatherInstance s2)\<lparr>digits := digits (gatherInstance s2) @ digit\<rparr>\<rparr>
               in if \<not> truthy (gatherFinishOnKey (gatherInstance s3))
                     \<and> (case numDigits (gatherInstance s3) of
                          None \<Rightarrow> False
                        | Some k \<Rightarrow> int (length (digits (gatherInstance s3))) \<ge> k)
                  then finishGather n pbx s3
                  else Some s3))
         else Some s2)"

definition onPlaybackFinished ::
  "nat \<Rightarrow> Pbx \<Rightarrow> string option \<Rightarrow> ChannelManager \<Rightarrow> ChannelManager option" where
  "onPlaybackFinished n pbx pbId s =
     (if truthy pbId \<and> playbackId s \<noteq> [] \<and> pbId \<noteq> Some (playbackId s) then Some s
      else
        (let s1 = clearTimeoutHandle (s\<lparr>isPlaying := False\<rparr>)
         in case pendingAction s1 of
              Some (url, params) \<Rightarrow>
                runAction n pbx (getActions pbx url params (s1\<lparr>pendingAction := None\<rparr>))
            | None \<Rightarrow>
                if running (gatherInstance s1) then
                  (let s2 = clearGatherTimeout s1;
                       (h, s3) = setTimer GatherTimeout s2
                   in Some (s3\<lparr>gatherInstance := (gatherInstance s3)\<lparr>gatherTimeout := Some h\<rparr>\<rparr>))
                else if remainingActions s1 = [] then
                  (let (h, s2) = setTimer DestroyTimeout s1
                   in Some (s2\<lparr>timeoutHandle := Some h\<rparr>))
                else runAction n pbx s1))"

definition handleTimeout :: "nat \<Rightarrow> Pbx \<Rightarrow> ChannelManager \<Rightarrow> ChannelManager option" where
  "handleTimeout n pbx s =
     (case pendingAction s of
        Some (url, params) \<Rightarrow>
          map_option (\<lambda>s'. s'\<lparr>pendingAction := None\<rparr>) (setAction n pbx url params s)
      | None \<Rightarrow> runAction n pbx s)"

text \<open>
  A timer of the session fires: the runtime drops the handle and runs its callback. A
  handle that is not armed (never set, cleared, or fired before) does not fire.
\<close>

definition timerFires :: "nat \<Rightarrow> Pbx \<Rightarrow> nat \<Rightarrow> ChannelManager \<Rightarrow> ChannelManager option" where
  "timerFires n pbx h s =
     (case armed s h of
        None \<Rightarrow> Some s
      | Some callback \<Rightarrow>
          (let s1 = s\<lparr>armed := (armed s)(h := None)\<rparr>
           in case callback of
                PlayTimeout \<Rightarrow> handleTimeout n pbx s1
              | GatherTimeout \<Rightarrow>
                  Some (if running (gatherInstance s1)
                        then destroy pbx (s1\<lparr>gatherInstance := (gatherInstance s1)\<lparr>running := False\<rparr>\<rparr>)
                        else s1)
              | DestroyTimeout \<Rightarrow> Some (destroy pbx s1)))"

text \<open>
  Fixtures. The PBX accepts every request; a fetch of \<^verbatim>\<open>/action/answer\<close> returns a prompt
  followed by a gather of two digits, any other fetch returns the \<^verbatim>\<open>confirm\<close> script, one
  Play with a timeout of 5 seconds.
\<close>

abbreviation answer_script :: "Action list" where
  "answer_script \<equiv>
     [\<lparr>name = ''play'', data = Some ''custom/venmo/answer'', attributes = noAttributes\<rparr>,
      \<lparr>name = ''gather'', data = Some ''[object Object]'',
       attributes = \<lparr>attr_timeout = Some ''12'', attr_numDigits = Some ''2'',
                     attr_finishOnKey = None,
                     attr_action = Some ''http://localhost:3000/action/gather?uuid=call_1'',
                     attr_Digits = None\<rparr>\<rparr>]"

abbreviation confirm_script :: "Action list" where
  "confirm_script \<equiv>
     [\<lparr>name = ''play'', data = Some ''custom/venmo/confirm'',
       attributes = noAttributes\<lparr>attr_timeout := Some ''5''\<rparr>\<rparr>]"

abbreviation scripted_pbx :: Pbx where
  "scripted_pbx \<equiv>
     \<lparr>fetchResult = (\<lambda>log. if log = [FetchActionXML
                                        ''http://localhost:3000/action/answer?uuid=call_1''
                                        noAttributes]
                            then Parsed answer_script else Parsed confirm_script),
      requestFails = (\<lambda>_. False),
      playbackStamp = (\<lambda>log. if length log \<le> 1 then ''1700000000000_k3f9''
                              else ''1700000009000_x7q2'')\<rparr>"

text \<open>
  The states of one call, \<^verbatim>\<open>call_1\<close>, in the order in which it reaches them: the prompt of
  \<^verbatim>\<open>answer\<close> is playing and the gather is set up; the prompt has ended and the gather
  timer runs; the first digit is in. From there the call goes on to \<^verbatim>\<open>confirm\<close> with the
  second digit: the prompt of \<^verbatim>\<open>confirm\<close> is playing, and then it has ended and the
  post-playback timer runs. Or the first digit arrives while the prompt of \<^verbatim>\<open>answer\<close> is
  still playing and interrupts it.
\<close>

abbreviation prompt_playing :: ChannelManager where
  "prompt_playing \<equiv>
     \<lparr>channelId = ''call_1'', remainingActions = [],
      gatherInstance = \<lparr>digits = [], running = True, numDigits = Some 2,
                        gatherFinishOnKey = None,
                        gatherAction = Some ''http://localhost:3000/action/gather?uuid=call_1'',
                        gatherTimeout = None, timeoutSeconds = Some 12\<rparr>,
      playbackId = ''call_1_1700000000000_k3f9'', isPlaying = True, currentTimeout = 12,
      timeoutHandle = None, pendingAction = None, currentActionStatus = ''answer'',
      isDestroyed = False, armed = Map.empty, nextHandle = 0,
      outbound = [FetchActionXML ''http://localhost:3000/action/answer?uuid=call_1'' noAttributes,
                  ApiPlay ''call_1'' ''custom/venmo/answer'' ''call_1_1700000000000_k3f9'']\<rparr>"

abbreviation awaiting_digits :: ChannelManager where
  "awaiting_digits \<equiv>
     prompt_playing\<lparr>isPlaying := False,
                    gatherInstance := (gatherInstance prompt_playing)\<lparr>gatherTimeout := Some 0\<rparr>,
                    armed := [0 \<mapsto> GatherTimeout], nextHandle := 1\<rparr>"

abbreviation one_digit_in :: ChannelManager where
  "one_digit_in \<equiv>
     awaiting_digits\<lparr>gatherInstance := (gatherInstance awaiting_digits)\<lparr>digits := ''7''\<rparr>\<rparr>"

abbreviation confirm_playing :: ChannelManager where
  "confirm_playing \<equiv>
     one_digit_in\<lparr>gatherInstance := (gatherInstance one_digit_in)
                     \<lparr>digits := ''73'', running := False, gatherTimeout := None\<rparr>,
                  playbackId := ''call_1_1700000009000_x7q2'', isPlaying := True,
                  currentTimeout := 5, timeoutHandle := Some 1,
                  currentActionStatus := ''gather'',
                  armed := [1 \<mapsto> PlayTimeout], nextHandle := 2,
                  outbound := outbound one_digit_in @
                    [FetchActionXML ''http://localhost:3000/action/gather?uuid=call_1''
                       (noAttributes\<lparr>attr_Digits := Some ''73''\<rparr>),
                     ApiPlay ''call_1'' ''custom/venmo/confirm'' ''call_1_1700000009000_x7q2'']\<rparr>"

abbreviation confirm_played :: ChannelManager where
  "confirm_played \<equiv>
     confirm_playing\<lparr>isPlaying := False, timeoutHandle := Some 2,
                     armed := [2 \<mapsto> DestroyTimeout], nextHandle := 3\<rparr>"

abbreviation barged_in :: ChannelManager where
  "barged_in \<equiv>
     prompt_playing\<lparr>gatherInstance := (gatherInstance prompt_playing)\<lparr>digits := ''7''\<rparr>,
                    playbackId := [], isPlaying := False,
                    outbound := outbound prompt_playing
                      @ [ApiStopPlayback ''call_1_1700000000000_k3f9'']\<rparr>"

text \<open>
  The states the call must not reach and does: the session destroyed after its first
  digit and then given the second digit; and the interrupted session after the
  playback-finished event of the prompt it interrupted.
\<close>

abbreviation digit_after_destroy :: ChannelManager where
  "digit_after_destroy \<equiv>
     one_digit_in\<lparr>gatherInstance := (gatherInstance one_digit_in)
                     \<lparr>digits := ''73'', running := False, gatherTimeout := None\<rparr>,
                  playbackId := ''call_1_1700000009000_x7q2'', isPlaying := True,
                  currentTimeout := 5, timeoutHandle := Some 1,
                  currentActionStatus := ''gather'', isDestroyed := True,
                  armed := [1 \<mapsto> PlayTimeout], nextHandle := 2,
                  outbound := outbound one_digit_in @
                    [ApiHangup ''call_1'',
                     FetchActionXML ''http://localhost:3000/action/gather?uuid=call_1''
                       (noAttributes\<lparr>attr_Digits := Some ''73''\<rparr>),
                     ApiPlay ''call_1'' ''custom/venmo/confirm'' ''call_1_1700000009000_x7q2'']\<rparr>"

abbreviation gather_timer_started :: ChannelManager where
  "gather_timer_started \<equiv>
     barged_in\<lparr>gatherInstance := (gatherInstance barged_in)\<lparr>gatherTimeout := Some 0\<rparr>,
               armed := [0 \<mapsto> GatherTimeout], nextHandle := 1\<rparr>"

chapter \<open>Properties\<close>

section \<open>TrunkStore: caps and release\<close>

lemma findAvailableLoop_find:
  "findAvailableLoop counts ts =
     List.find (\<lambda>t. enat (usageOf counts (trunk_id t)) < getMaxUsageForTrunk t) ts"
  by (induction ts) (auto simp: Let_def)

lemma findAvailableLoop_Some:
  "findAvailableLoop counts ts = Some t \<Longrightarrow>
     enat (usageOf counts (trunk_id t)) < getMaxUsageForTrunk t \<and> t \<in> set ts"
  by (induction ts) (auto simp: Let_def split: if_splits)

lemma findAvailableTrunk_Some:
  "findAvailableTrunk st tok = Some t \<Longrightarrow>
     enat (usageOf (trunkUsageCount st) (trunk_id t)) < getMaxUsageForTrunk t
     \<and> t \<in> set (getTrunksForUser st tok)"
  unfolding findAvailableTrunk_def by (rule findAvailableLoop_Some)

lemma usage_after_assign:
  "findAvailableTrunk st tok = Some t \<Longrightarrow>
   trunkUsageCount (snd (assignTrunk tok aid now st)) =
     (trunkUsageCount st)(trunk_id t \<mapsto> usageOf (trunkUsageCount st) (trunk_id t) + 1)"
  by (simp add: assignTrunk_def setTimeout_def Let_def)

lemma below_suc_le: "enat n < m \<Longrightarrow> enat (n + 1) \<le> m"
  by (cases m) auto

text \<open>
  Claim C1. The cap of a trunk is 9 for a verified custom/telnyx trunk, 4 for any other
  custom/telnyx trunk and infinite for every other trunk id. \<open>findAvailableTrunk\<close> returns
  the first trunk of the user's list whose usage is below its cap. When there is none,
  \<open>assignTrunk\<close> fails and leaves the store unchanged; otherwise it returns that trunk
  with the given assignment id and raises its counter by one, which stays within the cap.
  When every trunk of the user is at (or above) its cap the call fails. When the user's
  trunk ids are distinct and all counters are within their caps, they still are afterwards.
\<close>

theorem assignTrunk_caps:
  "getMaxUsageForTrunk tr =
     (if prefix ''telnyx_'' (trunk_id tr) \<or> prefix ''custom_'' (trunk_id tr)
      then (if is_verified tr = Some True then 9 else 4) else \<infinity>)
   \<and> findAvailableTrunk st tok =
       List.find (\<lambda>t. enat (usageOf (trunkUsageCount st) (trunk_id t)) < getMaxUsageForTrunk t)
         (getTrunksForUser st tok)
   \<and> (case findAvailableTrunk st tok of
         None \<Rightarrow> assignTrunk tok aid now st = (AssignFailure, st)
       | Some t \<Rightarrow>
           fst (assignTrunk tok aid now st) = AssignSuccess t aid
           \<and> usageOf (trunkUsageCount (snd (assignTrunk tok aid now st))) (trunk_id t)
               = usageOf (trunkUsageCount st) (trunk_id t) + 1
           \<and> enat (usageOf (trunkUsageCount (snd (assignTrunk tok aid now st))) (trunk_id t))
               \<le> getMaxUsageForTrunk t)
   \<and> ((\<forall>t \<in> set (getTrunksForUser st tok).
          getMaxUsageForTrunk t \<le> enat (usageOf (trunkUsageCount st) (trunk_id t)))
        \<longrightarrow> assignTrunk tok aid now st = (AssignFailure, st))
   \<and> (distinct (map trunk_id (getTrunksForUser st tok))
        \<and> (\<forall>t \<in> set (getTrunksForUser st tok).
              enat (usageOf (trunkUsageCount st) (trunk_id t)) \<le> getMaxUsageForTrunk t)
        \<longrightarrow> (\<forall>t \<in> set (getTrunksForUser st tok).
              enat (usageOf (trunkUsageCount (snd (assignTrunk tok aid now st))) (trunk_id t))
                \<le> getMaxUsageForTrunk t))"
proof (intro conjI)
  show "getMaxUsageForTrunk tr =
     (if prefix ''telnyx_'' (trunk_id tr) \<or> prefix ''custom_'' (trunk_id tr)
      then (if is_verified tr = Some True then 9 else 4) else \<infinity>)"
    by (simp add: getMaxUsageForTrunk_def isCustomOrTelnyxTrunk_def MAX_TRUNK_USAGE_def
        numeral_eq_enat)
next
  show "findAvailableTrunk st tok =
       List.find (\<lambda>t. enat (usageOf (trunkUsageCount st) (trunk_id t)) < getMaxUsageForTrunk t)
         (getTrunksForUser st tok)"
    by (simp add: findAvailableTrunk_def findAvailableLoop_find)
  show "case findAvailableTrunk st tok of
         None \<Rightarrow> assignTrunk tok aid now st = (AssignFailure, st)
       | Some t \<Rightarrow>
           fst (assignTrunk tok aid now st) = AssignSuccess t aid
           \<and> usageOf (trunkUsageCount (snd (assignTrunk tok aid now st))) (trunk_id t)
               = usageOf (trunkUsageCount st) (trunk_id t) + 1
           \<and> enat (usageOf (trunkUsageCount (snd (assignTrunk tok aid now st))) (trunk_id t))
               \<le> getMaxUsageForTrunk t"
  proof (cases "findAvailableTrunk st tok")
    case None
    then show ?thesis by (simp add: assignTrunk_def)
  next
    case (Some t)
    from findAvailableTrunk_Some[OF Some]
    have B: "enat (usageOf (trunkUsageCount st) (trunk_id t)) < getMaxUsageForTrunk t" by simp
    have R: "fst (assignTrunk tok aid now st) = AssignSuccess t aid"
      using Some by (simp add: assignTrunk_def setTimeout_def Let_def)
    have U: "usageOf (trunkUsageCount (snd (assignTrunk tok aid now st))) (trunk_id t)
               = usageOf (trunkUsageCount st) (trunk_id t) + 1"
      using usage_after_assign[OF Some] by (simp add: usageOf_def)
    show ?thesis using Some R U below_suc_le[OF B] by simp
  qed
  show "(\<forall>t \<in> set (getTrunksForUser st tok).
          getMaxUsageForTrunk t \<le> enat (usageOf (trunkUsageCount st) (trunk_id t)))
        \<longrightarrow> assignTrunk tok aid now st = (AssignFailure, st)"
  proof
    assume A: "\<forall>t \<in> set (getTrunksForUser st tok).
          getMaxUsageForTrunk t \<le> enat (usageOf (trunkUsageCount st) (trunk_id t))"
    have "findAvailableTrunk st tok = None"
    proof (cases "findAvailableTrunk st tok")
      case None then show ?thesis .
    next
      case (Some t)
      from findAvailableTrunk_Some[OF Some] A show ?thesis by fastforce
    qed
    then show "assignTrunk tok aid now st = (AssignFailure, st)" by (simp add: assignTrunk_def)
  qed
  show "distinct (map trunk_id (getTrunksForUser st tok))
        \<and> (\<forall>t \<in> set (getTrunksForUser st tok).
              enat (usageOf (trunkUsageCount st) (trunk_id t)) \<le> getMaxUsageForTrunk t)
        \<longrightarrow> (\<forall>t \<in> set (getTrunksForUser st tok).
              enat (usageOf (trunkUsageCount (snd (assignTrunk tok aid now st))) (trunk_id t))
                \<le> getMaxUsageForTrunk t)"
  proof (intro impI ballI, elim conjE)
    fix t
    assume D: "distinct (map trunk_id (getTrunksForUser st tok))"
      and I: "\<forall>t \<in> set (getTrunksForUser st tok).
              enat (usageOf (trunkUsageCount st) (trunk_id t)) \<le> getMaxUsageForTrunk t"
      and T: "t \<in> set (getTrunksForUser st tok)"
    show "enat (usageOf (trunkUsageCount (snd (assignTrunk tok aid now st))) (trunk_id t))
                \<le> getMaxUsageForTrunk t"
    proof (cases "findAvailableTrunk st tok")
      case None
      then show ?thesis using I T by (simp add: assignTrunk_def)
    next
      case (Some a)
      from findAvailableTrunk_Some[OF Some]
      have B: "enat (usageOf (trunkUsageCount st) (trunk_id a)) < getMaxUsageForTrunk a"
        and M: "a \<in> set (getTrunksForUser st tok)" by simp_all
      show ?thesis
      proof (cases "trunk_id t = trunk_id a")
        case True
        with D T M have "t = a" by (meson distinct_map inj_onD)
        then show ?thesis using usage_after_assign[OF Some] below_suc_le[OF B]
          by (simp add: usageOf_def)
      next
        case False
        then show ?thesis using usage_after_assign[OF Some] I T
          by (simp add: usageOf_def)
      qed
    qed
  qed
qed

text \<open>
  The fifth assignment on an unverified custom trunk with four in use fails and changes
  nothing; with three in use the fourth succeeds and reaches the cap without passing it.
\<close>

theorem assignTrunk_caps_witness:
  "getMaxUsageForTrunk trunk_custom_A = 4
   \<and> getTrunksForUser (store_with_usage 4) ''U-1'' = [trunk_custom_A]
   \<and> assignTrunk ''U-1'' ''a5'' 0 (store_with_usage 4) = (AssignFailure, store_with_usage 4)
   \<and> fst (assignTrunk ''U-1'' ''a4'' 0 (store_with_usage 3)) = AssignSuccess trunk_custom_A ''a4''
   \<and> usageOf (trunkUsageCount (snd (assignTrunk ''U-1'' ''a4'' 0 (store_with_usage 3)))) ''custom_A'' = 4
   \<and> enat (usageOf (trunkUsageCount (snd (assignTrunk ''U-1'' ''a4'' 0 (store_with_usage 3))))
             (trunk_id trunk_custom_A)) \<le> getMaxUsageForTrunk trunk_custom_A"
proof -
  have cap: "getMaxUsageForTrunk trunk_custom_A = 4"
    by (simp add: getMaxUsageForTrunk_def isCustomOrTelnyxTrunk_def MAX_TRUNK_USAGE_def
        numeral_eq_enat)
  have trunks: "getTrunksForUser (store_with_usage n) ''U-1'' = [trunk_custom_A]" for n
    by (simp add: getTrunksForUser_def normalizeUserToken_def)
  have full: "\<forall>t \<in> set (getTrunksForUser (store_with_usage 4) ''U-1'').
      getMaxUsageForTrunk t \<le> enat (usageOf (trunkUsageCount (store_with_usage 4)) (trunk_id t))"
    by (simp add: trunks cap usageOf_def numeral_eq_enat)
  have free: "findAvailableTrunk (store_with_usage 3) ''U-1'' = Some trunk_custom_A"
    by (simp add: findAvailableTrunk_def trunks cap usageOf_def numeral_eq_enat)
  have within: "distinct (map trunk_id (getTrunksForUser (store_with_usage 3) ''U-1''))
      \<and> (\<forall>t \<in> set (getTrunksForUser (store_with_usage 3) ''U-1'').
            enat (usageOf (trunkUsageCount (store_with_usage 3)) (trunk_id t))
              \<le> getMaxUsageForTrunk t)"
    by (simp add: trunks cap usageOf_def numeral_eq_enat)
  note at4 = assignTrunk_caps [of trunk_custom_A "store_with_usage 4" "''U-1''" "''a5''" 0]
  note at3 = assignTrunk_caps [of trunk_custom_A "store_with_usage 3" "''U-1''" "''a4''" 0]
  have fail: "assignTrunk ''U-1'' ''a5'' 0 (store_with_usage 4) = (AssignFailure, store_with_usage 4)"
    using at4 full by blast
  have ok: "fst (assignTrunk ''U-1'' ''a4'' 0 (store_with_usage 3)) = AssignSuccess trunk_custom_A ''a4''
    \<and> usageOf (trunkUsageCount (snd (assignTrunk ''U-1'' ''a4'' 0 (store_with_usage 3)))) ''custom_A'' = 4"
    using at3 by (simp add: free usageOf_def)
  have kept: "\<forall>t \<in> set (getTrunksForUser (store_with_usage 3) ''U-1'').
      enat (usageOf (trunkUsageCount (snd (assignTrunk ''U-1'' ''a4'' 0 (store_with_usage 3))))
             (trunk_id t)) \<le> getMaxUsageForTrunk t"
    using at3[THEN conjunct2, THEN conjunct2, THEN conjunct2, THEN conjunct2, rule_format,
        OF within] by blast
  then have kept': "enat (usageOf (trunkUsageCount (snd (assignTrunk ''U-1'' ''a4'' 0
        (store_with_usage 3)))) (trunk_id trunk_custom_A)) \<le> getMaxUsageForTrunk trunk_custom_A"
    by (simp add: trunks)
  show ?thesis using cap trunks fail ok kept' by simp
qed

lemma releaseAssignmentById_eq: "releaseAssignmentById aid st = releaseAssignment aid st"
  by (simp add: releaseAssignmentById_def releaseAssignment_def)

lemma release_unknown:
  "assignments st aid = None \<Longrightarrow> releaseAssignment aid st = (AssignmentNotFound, st)"
  by (simp add: releaseAssignment_def)

lemma release_known_fst:
  "assignments st aid = Some a \<Longrightarrow> fst (releaseAssignment aid st) = Released"
  by (simp add: releaseAssignment_def Let_def)

lemma release_known_fields:
  assumes "assignments st aid = Some a"
  shows "assignments (snd (releaseAssignment aid st)) = (assignments st)(aid := None)"
    and "timers (snd (releaseAssignment aid st)) = (timers st)(timeout_id a := None)"
    and "trunksByUserToken (snd (releaseAssignment aid st)) = trunksByUserToken st"
    and "nextTimer (snd (releaseAssignment aid st)) = nextTimer st"
    and "trunkUsageCount (snd (releaseAssignment aid st)) =
           (if 0 < usageOf (trunkUsageCount st) (asg_trunk_id a)
            then (trunkUsageCount st)(asg_trunk_id a \<mapsto>
                   usageOf (trunkUsageCount st) (asg_trunk_id a) - 1)
            else trunkUsageCount st)"
  using assms by (simp_all add: releaseAssignment_def clearTimeout_def Let_def)

text \<open>
  Claim C4. Releasing a known assignment id succeeds; the counter of its trunk goes down
  by exactly one when it is positive and stays 0 otherwise, no other counter changes, the
  TTL timer of the assignment is cancelled, the assignment is removed and the inventory is
  untouched; releasing the same id again is not found and changes nothing, and the
  cancelled timer has no effect any more. Releasing an unknown id is not found and changes
  nothing. After the TTL timer of an assignment fired, the assignment is gone and a
  release by request is not found and changes nothing. The auto-release of the timer is
  the same function as the release by request.
\<close>

theorem release_semantics:
  "(assignments st aid = Some a \<longrightarrow>
      fst (releaseAssignment aid st) = Released
      \<and> (0 < usageOf (trunkUsageCount st) (asg_trunk_id a) \<longrightarrow>
           usageOf (trunkUsageCount (snd (releaseAssignment aid st))) (asg_trunk_id a) + 1
             = usageOf (trunkUsageCount st) (asg_trunk_id a))
      \<and> (usageOf (trunkUsageCount st) (asg_trunk_id a) = 0 \<longrightarrow>
           usageOf (trunkUsageCount (snd (releaseAssignment aid st))) (asg_trunk_id a) = 0)
      \<and> (\<forall>tid. tid \<noteq> asg_trunk_id a \<longrightarrow>
           trunkUsageCount (snd (releaseAssignment aid st)) tid = trunkUsageCount st tid)
      \<and> timers (snd (releaseAssignment aid st)) = (timers st)(timeout_id a := None)
      \<and> assignments (snd (releaseAssignment aid st)) = (assignments st)(aid := None)
      \<and> trunksByUserToken (snd (releaseAssignment aid st)) = trunksByUserToken st
      \<and> releaseAssignment aid (snd (releaseAssignment aid st))
           = (AssignmentNotFound, snd (releaseAssignment aid st))
      \<and> fireTimer (timeout_id a) (snd (releaseAssignment aid st)) = snd (releaseAssignment aid st))
   \<and> (assignments st aid = None \<longrightarrow> releaseAssignment aid st = (AssignmentNotFound, st))
   \<and> (timers st h = Some aid \<longrightarrow>
        assignments (fireTimer h st) aid = None
        \<and> releaseAssignment aid (fireTimer h st) = (AssignmentNotFound, fireTimer h st))
   \<and> releaseAssignmentById aid st = releaseAssignment aid st"
proof (intro conjI impI allI)
  assume A: "assignments st aid = Some a"
  note F = release_known_fields[OF A]
  show "fst (releaseAssignment aid st) = Released" by (rule release_known_fst[OF A])
  show "usageOf (trunkUsageCount (snd (releaseAssignment aid st))) (asg_trunk_id a) + 1
             = usageOf (trunkUsageCount st) (asg_trunk_id a)"
    if "0 < usageOf (trunkUsageCount st) (asg_trunk_id a)"
    using that by (simp add: F usageOf_def)
  show "usageOf (trunkUsageCount (snd (releaseAssignment aid st))) (asg_trunk_id a) = 0"
    if "usageOf (trunkUsageCount st) (asg_trunk_id a) = 0"
    using that by (simp add: F)
  show "trunkUsageCount (snd (releaseAssignment aid st)) tid = trunkUsageCount st tid"
    if "tid \<noteq> asg_trunk_id a" for tid
    using that by (simp add: F)
  show "timers (snd (releaseAssignment aid st)) = (timers st)(timeout_id a := None)" by (rule F)
  show G: "assignments (snd (releaseAssignment aid st)) = (assignments st)(aid := None)"
    by (rule F)
  show "trunksByUserToken (snd (releaseAssignment aid st)) = trunksByUserToken st" by (rule F)
  show "releaseAssignment aid (snd (releaseAssignment aid st))
           = (AssignmentNotFound, snd (releaseAssignment aid st))"
    by (rule release_unknown) (simp add: G)
  show "fireTimer (timeout_id a) (snd (releaseAssignment aid st)) = snd (releaseAssignment aid st)"
    by (simp add: fireTimer_def F)
next
  assume "assignments st aid = None"
  then show "releaseAssignment aid st = (AssignmentNotFound, st)" by (rule release_unknown)
next
  assume T: "timers st h = Some aid"
  show N: "assignments (fireTimer h st) aid = None"
  proof (cases "assignments st aid")
    case None
    then show ?thesis using T
      by (simp add: fireTimer_def releaseAssignmentById_eq releaseAssignment_def)
  next
    case (Some a)
    then have "assignments (st\<lparr>timers := (timers st)(h := None)\<rparr>) aid = Some a" by simp
    from release_known_fields(1)[OF this] show ?thesis using T
      by (simp add: fireTimer_def releaseAssignmentById_eq)
  qed
  show "releaseAssignment aid (fireTimer h st) = (AssignmentNotFound, fireTimer h st)"
    by (rule release_unknown[OF N])
next
  show "releaseAssignmentById aid st = releaseAssignment aid st"
    by (rule releaseAssignmentById_eq)
qed

text \<open>
  With one live assignment \<^verbatim>\<open>a1\<close> on \<^verbatim>\<open>custom_A\<close>: the release brings the counter from 1
  to 0, cancels timer 0 and removes \<^verbatim>\<open>a1\<close>; a second release, the release of an id that
  never existed, and a release after the timer fired are not found. When the counter is
  already 0 (the trunk left the inventory and came back while \<^verbatim>\<open>a1\<close> was live), the release
  leaves it at 0.
\<close>

theorem release_semantics_witness:
  "assignments store_with_a1 ''a1'' = Some assignment_a1
   \<and> assignments store_with_a1 ''zz'' = None
   \<and> timers store_with_a1 0 = Some ''a1''
   \<and> fst (releaseAssignment ''a1'' store_with_a1) = Released
   \<and> usageOf (trunkUsageCount (snd (releaseAssignment ''a1'' store_with_a1))) ''custom_A'' = 0
   \<and> timers (snd (releaseAssignment ''a1'' store_with_a1)) 0 = None
   \<and> assignments (snd (releaseAssignment ''a1'' store_with_a1)) ''a1'' = None
   \<and> fst (releaseAssignment ''a1'' (snd (releaseAssignment ''a1'' store_with_a1)))
        = AssignmentNotFound
   \<and> releaseAssignment ''zz'' store_with_a1 = (AssignmentNotFound, store_with_a1)
   \<and> fst (releaseAssignment ''a1'' (fireTimer 0 store_with_a1)) = AssignmentNotFound
   \<and> usageOf (trunkUsageCount (snd (releaseAssignment ''a1''
         (store_with_a1\<lparr>trunkUsageCount := [''custom_A'' \<mapsto> 0]\<rparr>)))) ''custom_A'' = 0"
  using release_semantics [of store_with_a1 "''a1''" assignment_a1 0]
    release_semantics [of store_with_a1 "''zz''" assignment_a1 0]
    release_semantics [of "store_with_a1\<lparr>trunkUsageCount := [''custom_A'' \<mapsto> 0]\<rparr>" "''a1''"
      assignment_a1 0]
  by (simp add: usageOf_def)

section \<open>WebSocketService: what is buffered\<close>

text \<open>
  Claim C10. When the socket of the call exists and is open: a send that throws returns
  false and leaves the whole registry unchanged, so the payload is not buffered; a send
  that does not throw returns true and appends the payload to the frames of that socket;
  in both cases the pending buffer is unchanged. When there is no open socket for the
  call, the payload replaces the pending entry of the call and the result is false. So the
  pending buffer changes only when no open socket exists.
\<close>

theorem sendToCallId_buffering:
  "(\<forall>ws. connections svc c = Some ws \<and> readyState ws = OPEN \<longrightarrow>
      sendToCallId True c m svc = (False, svc)
      \<and> sendToCallId False c m svc =
          (True, svc\<lparr>connections := (connections svc)(c \<mapsto> ws\<lparr>sent := sent ws @ [m]\<rparr>)\<rparr>)
      \<and> pendingMessages (snd (sendToCallId thr c m svc)) = pendingMessages svc)
   \<and> ((\<nexists>ws. connections svc c = Some ws \<and> readyState ws = OPEN) \<longrightarrow>
      sendToCallId thr c m svc
        = (False, svc\<lparr>pendingMessages := (pendingMessages svc)(c \<mapsto> m)\<rparr>))
   \<and> (pendingMessages (snd (sendToCallId thr c m svc)) \<noteq> pendingMessages svc \<longrightarrow>
        (\<nexists>ws. connections svc c = Some ws \<and> readyState ws = OPEN))"
  by (auto simp: sendToCallId_def split: option.splits)

text \<open>
  With an open socket for \<^verbatim>\<open>c1\<close>, a throwing send changes nothing; for \<^verbatim>\<open>c2\<close>, which has
  no socket, the payload is buffered.
\<close>

theorem sendToCallId_buffering_witness:
  "connections registry_c1_open ''c1'' = Some \<lparr>readyState = OPEN, sent = []\<rparr>
   \<and> sendToCallId True ''c1'' [(''callId'', JString ''c1'')] registry_c1_open
       = (False, registry_c1_open)
   \<and> connections registry_c1_open ''c2'' = None
   \<and> pendingMessages (snd (sendToCallId True ''c2'' [(''callId'', JString ''c2'')]
                               registry_c1_open)) ''c2''
       = Some [(''callId'', JString ''c2'')]"
  using sendToCallId_buffering [of registry_c1_open "''c1''" "[(''callId'', JString ''c1'')]" True]
    sendToCallId_buffering [of registry_c1_open "''c2''" "[(''callId'', JString ''c2'')]" True]
  by simp

section \<open>ActionController: menu hoisting and the timeout of the response\<close>

lemma processActionLogic_option:
  "st = ''option1'' \<or> st = ''option2'' \<Longrightarrow> d \<noteq> [] \<Longrightarrow>
   processActionLogic catalog thr st u (Some d) ctl
     = pushTo thr u [(''callId'', JString u), (''SendOtp'', JString d)] ctl"
  by (auto simp: processActionLogic_def)

lemma callStore_pushTo: "callStore (pushTo thr u m ctl) = callStore ctl"
  by (simp add: pushTo_def)

lemma handleAction_known:
  assumes "u \<noteq> []" "getCall (callStore ctl) u = Some cd" "st \<noteq> ''options''" "st \<noteq> ''gather1''"
  shows "handleAction catalog env numberText rnd thr st (Some u) dq ctl =
     (case catalog (campaign cd) st of
        None \<Rightarrow> (errorXml, ctl)
      | Some ad \<Rightarrow> (generateXMLResponse env numberText rnd st ad u (campaign cd),
                    processActionLogic catalog thr st u dq ctl))"
  using assms by (simp add: handleAction_def Let_def split: option.splits)

lemma handleAction_options:
  assumes "u \<noteq> []" "getCall (callStore ctl) u = Some cd" "d \<noteq> []"
  shows "handleAction catalog env numberText rnd thr ''options'' (Some u) (Some d) ctl =
     (let st = (if d = ''1'' then ''option1'' else ''option2'');
          ctl1 = ctl\<lparr>callStore := (callStore ctl)(u \<mapsto>
                     cd\<lparr>selectedOption := Some (if d = ''1'' then ''1'' else ''2'')\<rparr>)\<rparr>
      in case catalog (campaign cd) st of
        None \<Rightarrow> (errorXml, ctl1)
      | Some ad \<Rightarrow> (generateXMLResponse env numberText rnd st ad u (campaign cd),
                    processActionLogic catalog thr st u (Some d) ctl1))"
  using assms
  by (simp add: handleAction_def Let_def truthy_def updateCall_def getCall_def split: option.splits)

text \<open>
  Claim C8. For a request to \<^verbatim>\<open>/action/options\<close> with a non-empty \<^verbatim>\<open>uuid\<close> of a known
  call and non-empty \<^verbatim>\<open>Digits\<close>: let the selected option be 1 when the digits are exactly
  \<^verbatim>\<open>1\<close> and 2 otherwise. The request has the same response and the same effects as a
  request to \<^verbatim>\<open>/action/option1\<close> (or \<^verbatim>\<open>option2\<close>) on the store in which the call's
  \<^verbatim>\<open>selectedOption\<close> is already set; after the request the stored call is the old one
  with that \<^verbatim>\<open>selectedOption\<close>; the response is looked up and generated for the status
  \<^verbatim>\<open>option1\<close> (or \<^verbatim>\<open>option2\<close>), and the side effect is the \<^verbatim>\<open>SendOtp\<close> push of that status.
\<close>

theorem menu_hoisting:
  "u \<noteq> [] \<and> d \<noteq> [] \<and> getCall (callStore ctl) u = Some cd \<longrightarrow>
     (let sel = (if d = ''1'' then ''1'' else ''2'');
          st = (if d = ''1'' then ''option1'' else ''option2'');
          ctl1 = ctl\<lparr>callStore := (callStore ctl)(u \<mapsto> cd\<lparr>selectedOption := Some sel\<rparr>)\<rparr>;
          res = handleAction catalog env numberText rnd thr ''options'' (Some u) (Some d) ctl
      in res = handleAction catalog env numberText rnd thr st (Some u) (Some d) ctl1
         \<and> getCall (callStore (snd res)) u = Some (cd\<lparr>selectedOption := Some sel\<rparr>)
         \<and> fst res = (case catalog (campaign cd) st of
                        None \<Rightarrow> errorXml
                      | Some ad \<Rightarrow> generateXMLResponse env numberText rnd st ad u (campaign cd))
         \<and> snd res = (case catalog (campaign cd) st of
                        None \<Rightarrow> ctl1
                      | Some ad \<Rightarrow>
                          pushTo thr u [(''callId'', JString u), (''SendOtp'', JString d)] ctl1))"
proof (intro impI, elim conjE)
  assume U: "u \<noteq> []" and D: "d \<noteq> []" and C: "getCall (callStore ctl) u = Some cd"
  define sel where "sel = (if d = ''1'' then ''1'' else ''2'')"
  define st where "st = (if d = ''1'' then ''option1'' else ''option2'')"
  define ctl1 where "ctl1 = ctl\<lparr>callStore := (callStore ctl)(u \<mapsto> cd\<lparr>selectedOption := Some sel\<rparr>)\<rparr>"
  define res where "res = handleAction catalog env numberText rnd thr ''options'' (Some u) (Some d) ctl"
  have st: "st = ''option1'' \<or> st = ''option2''" by (simp add: st_def)
  have C1: "getCall (callStore ctl1) u = Some (cd\<lparr>selectedOption := Some sel\<rparr>)"
    by (simp add: ctl1_def getCall_def)
  have R: "res = (case catalog (campaign cd) st of
        None \<Rightarrow> (errorXml, ctl1)
      | Some ad \<Rightarrow> (generateXMLResponse env numberText rnd st ad u (campaign cd),
                    pushTo thr u [(''callId'', JString u), (''SendOtp'', JString d)] ctl1))"
    unfolding res_def handleAction_options[OF U C D]
    using processActionLogic_option[OF st D, of catalog thr u ctl1]
    by (simp add: Let_def st_def[symmetric] sel_def[symmetric] ctl1_def[symmetric] split: option.splits)
  have R2: "handleAction catalog env numberText rnd thr st (Some u) (Some d) ctl1 = res"
    using st handleAction_known[OF U C1, of st catalog env numberText rnd thr "Some d"] R
      processActionLogic_option[OF st D, of catalog thr u ctl1]
    by (auto split: option.splits)
  have G: "getCall (callStore (snd res)) u = Some (cd\<lparr>selectedOption := Some sel\<rparr>)"
    using R C1 by (simp add: callStore_pushTo split: option.splits)
  show "let sel = (if d = ''1'' then ''1'' else ''2'');
          st = (if d = ''1'' then ''option1'' else ''option2'');
          ctl1 = ctl\<lparr>callStore := (callStore ctl)(u \<mapsto> cd\<lparr>selectedOption := Some sel\<rparr>)\<rparr>;
          res = handleAction catalog env numberText rnd thr ''options'' (Some u) (Some d) ctl
      in res = handleAction catalog env numberText rnd thr st (Some u) (Some d) ctl1
         \<and> getCall (callStore (snd res)) u = Some (cd\<lparr>selectedOption := Some sel\<rparr>)
         \<and> fst res = (case catalog (campaign cd) st of
                        None \<Rightarrow> errorXml
                      | Some ad \<Rightarrow> generateXMLResponse env numberText rnd st ad u (campaign cd))
         \<and> snd res = (case catalog (campaign cd) st of
                        None \<Rightarrow> ctl1
                      | Some ad \<Rightarrow>
                          pushTo thr u [(''callId'', JString u), (''SendOtp'', JString d)] ctl1)"
    unfolding Let_def sel_def[symmetric] st_def[symmetric] ctl1_def[symmetric] res_def[symmetric]
    using R R2 G by (simp split: option.splits)
qed

text \<open>
  The scenario of the menu split: digit 1 at \<^verbatim>\<open>/action/options\<close> stores option 1 and
  buffers the \<^verbatim>\<open>SendOtp\<close> push; digit 7 stores option 2.
\<close>

theorem menu_hoisting_witness:
  "getCall (callStore controller_call_1) ''call_1'' = Some call_1
   \<and> getCall (callStore (snd (handleAction catalog_menu None showNat one_half False ''options''
         (Some ''call_1'') (Some ''1'') controller_call_1))) ''call_1''
       = Some (call_1\<lparr>selectedOption := Some ''1''\<rparr>)
   \<and> pendingMessages (webSocketService (snd (handleAction catalog_menu None showNat one_half False
         ''options'' (Some ''call_1'') (Some ''1'') controller_call_1))) ''call_1''
       = Some [(''callId'', JString ''call_1''), (''SendOtp'', JString ''1'')]
   \<and> getCall (callStore (snd (handleAction catalog_menu None showNat one_half False ''options''
         (Some ''call_1'') (Some ''7'') controller_call_1))) ''call_1''
       = Some (call_1\<lparr>selectedOption := Some ''2''\<rparr>)"
proof -
  have known: "getCall (callStore controller_call_1) ''call_1'' = Some call_1"
    by (simp add: getCall_def)
  have h1: "''call_1'' \<noteq> [] \<and> ''1'' \<noteq> [] \<and> getCall (callStore controller_call_1) ''call_1'' = Some call_1"
    and h7: "''call_1'' \<noteq> [] \<and> ''7'' \<noteq> [] \<and> getCall (callStore controller_call_1) ''call_1'' = Some call_1"
    using known by simp_all
  note one = menu_hoisting [of "''call_1''" "''1''" controller_call_1 call_1 catalog_menu None
      showNat one_half False, unfolded Let_def, rule_format, OF h1]
  note seven = menu_hoisting [of "''call_1''" "''7''" controller_call_1 call_1 catalog_menu None
      showNat one_half False, unfolded Let_def, rule_format, OF h7]
  have s1: "getCall (callStore (snd (handleAction catalog_menu None showNat one_half False ''options''
         (Some ''call_1'') (Some ''1'') controller_call_1))) ''call_1''
       = Some (call_1\<lparr>selectedOption := Some ''1''\<rparr>)"
    using one[THEN conjunct2, THEN conjunct1] by simp
  have p1: "pendingMessages (webSocketService (snd (handleAction catalog_menu None showNat one_half False
         ''options'' (Some ''call_1'') (Some ''1'') controller_call_1))) ''call_1''
       = Some [(''callId'', JString ''call_1''), (''SendOtp'', JString ''1'')]"
    using one[THEN conjunct2, THEN conjunct2, THEN conjunct2]
    by (simp add: pushTo_def sendToCallId_def)
  have s7: "getCall (callStore (snd (handleAction catalog_menu None showNat one_half False ''options''
         (Some ''call_1'') (Some ''7'') controller_call_1))) ''call_1''
       = Some (call_1\<lparr>selectedOption := Some ''2''\<rparr>)"
    using seven[THEN conjunct2, THEN conjunct1] by simp
  show ?thesis using known s1 p1 s7 by simp
qed







lemma roundHalfEven_exact: "n mod q = 0 \<Longrightarrow> 0 < q \<Longrightarrow> roundHalfEven n q = n"
  by (auto simp: roundHalfEven_def Let_def)















section \<open>QueueManager: spacing and admission\<close>

lemma lastTimeOf_simps [simp]:
  "lastTimeOf (qm\<lparr>clock := c\<rparr>) = lastTimeOf qm"
  "lastTimeOf (qm\<lparr>queues := q\<rparr>) = lastTimeOf qm"
  "lastTimeOf (qm\<lparr>processing := p\<rparr>) = lastTimeOf qm"
  "lastTimeOf (qm\<lparr>activity := a\<rparr>) = lastTimeOf qm"
  "lastTimeOf (qm\<lparr>journal := j\<rparr>) = lastTimeOf qm"
  by (simp_all add: lastTimeOf_def fun_eq_iff)



lemma inv_queues [simp]: "queueInvariant early (qm\<lparr>queues := q\<rparr>) = queueInvariant early qm"
  unfolding queueInvariant_def by simp








lemma whileLoop_activity_irrelevant:
  "whileLoop now tid (qm\<lparr>activity := (activity qm)(tid := a)\<rparr>) = whileLoop now tid qm"
  by (simp add: whileLoop_def invokeHead_def leaveProcessQueue_def Let_def
      split: option.splits list.splits)

lemma whileLoop_clock:
  "(whileLoop now tid (qm\<lparr>clock := c\<rparr>))\<lparr>clock := c'\<rparr> = (whileLoop now tid qm)\<lparr>clock := c'\<rparr>"
  by (simp add: whileLoop_def invokeHead_def leaveProcessQueue_def Let_def
      split: option.splits list.splits)



















lemma queues_leave [simp]: "queues (leaveProcessQueue tid qm) = queues qm"
  by (simp add: leaveProcessQueue_def)

lemma queues_invokeHead [simp]: "queues (invokeHead now tid qm) = queues qm"
  by (simp add: invokeHead_def split: option.splits list.splits)

lemma queues_whileLoop [simp]: "queues (whileLoop now tid qm) = queues qm"
  by (simp add: whileLoop_def Let_def split: option.splits list.splits)

lemma queues_processQueue [simp]: "queues (processQueue now tid qm) = queues qm"
  by (simp add: processQueue_def)

text \<open>
  Claim C5. The limit is 50. When the queue of the trunk holds 50 jobs or more, \<open>enqueue\<close>
  reports that the queue is full and the queue manager is unchanged. When it holds fewer,
  or when the trunk has no queue yet, the job is accepted and, when \<open>enqueue\<close> returns, the
  queue of the trunk is the old one with the job appended at its end and every other
  queue is as it was.
\<close>

theorem enqueue_limit:
  "QUEUE_LIMIT = 50
   \<and> (\<forall>q. queues qm tid = Some q \<and> QUEUE_LIMIT \<le> length q \<longrightarrow>
        enqueue now tid e qm = (QueueFull tid, qm))
   \<and> (\<forall>q. queues qm tid = Some q \<and> length q < QUEUE_LIMIT \<longrightarrow>
        fst (enqueue now tid e qm) = Enqueued
        \<and> queues (snd (enqueue now tid e qm)) = (queues qm)(tid \<mapsto> q @ [e]))
   \<and> (queues qm tid = None \<longrightarrow>
        fst (enqueue now tid e qm) = Enqueued
        \<and> queues (snd (enqueue now tid e qm)) = (queues qm)(tid \<mapsto> [e]))"
  by (auto simp: enqueue_def Let_def QUEUE_LIMIT_def)

text \<open>
  The 51st job is refused and nothing changes; the first two jobs of a new trunk are
  queued in order.
\<close>

theorem enqueue_limit_witness:
  "queues full_queue ''T'' = Some (replicate 50 \<lparr>element_id = ''job''\<rparr>)
   \<and> enqueue 1000001 ''T'' \<lparr>element_id = ''job51''\<rparr> full_queue = (QueueFull ''T'', full_queue)
   \<and> queues (newQueueManager 0) ''T'' = None
   \<and> queues (snd (enqueue 1000001 ''T'' \<lparr>element_id = ''job1''\<rparr> (newQueueManager 0))) ''T''
        = Some [\<lparr>element_id = ''job1''\<rparr>]
   \<and> queues (snd (enqueue 1000001 ''T'' \<lparr>element_id = ''job2''\<rparr>
        (snd (enqueue 1000001 ''T'' \<lparr>element_id = ''job1''\<rparr> (newQueueManager 0))))) ''T''
        = Some [\<lparr>element_id = ''job1''\<rparr>, \<lparr>element_id = ''job2''\<rparr>]"
proof -
  have a: "enqueue 1000001 ''T'' \<lparr>element_id = ''job51''\<rparr> full_queue = (QueueFull ''T'', full_queue)"
    using enqueue_limit [of full_queue "''T''" 1000001 "\<lparr>element_id = ''job51''\<rparr>"]
    by (simp add: QUEUE_LIMIT_def)
  have n: "queues (newQueueManager 0) ''T'' = None" by (simp add: newQueueManager_def)
  have b: "queues (snd (enqueue 1000001 ''T'' \<lparr>element_id = ''job1''\<rparr> (newQueueManager 0)))
        = (queues (newQueueManager 0))(''T'' \<mapsto> [\<lparr>element_id = ''job1''\<rparr>])"
    using enqueue_limit [of "newQueueManager 0" "''T''" 1000001 "\<lparr>element_id = ''job1''\<rparr>"] n
    by simp
  have c: "queues (snd (enqueue 1000001 ''T'' \<lparr>element_id = ''job2''\<rparr>
        (snd (enqueue 1000001 ''T'' \<lparr>element_id = ''job1''\<rparr> (newQueueManager 0))))) ''T''
        = Some [\<lparr>element_id = ''job1''\<rparr>, \<lparr>element_id = ''job2''\<rparr>]"
    using enqueue_limit [of "snd (enqueue 1000001 ''T'' \<lparr>element_id = ''job1''\<rparr> (newQueueManager 0))"
        "''T''" 1000001 "\<lparr>element_id = ''job2''\<rparr>"] b
    by (simp add: QUEUE_LIMIT_def)
  show ?thesis using a n b c by simp
qed

section \<open>ChannelManager: destroy, late playback events and dropped digits\<close>

lemma clearTimeoutHandle_simps [simp]:
  "isDestroyed (clearTimeoutHandle s) = isDestroyed s"
  "outbound (clearTimeoutHandle s) = outbound s"
  "gatherInstance (clearTimeoutHandle s) = gatherInstance s"
  "timeoutHandle (clearTimeoutHandle s) = None"
  "isPlaying (clearTimeoutHandle s) = isPlaying s"
  "playbackId (clearTimeoutHandle s) = playbackId s"
  "channelId (clearTimeoutHandle s) = channelId s"
  "remainingActions (clearTimeoutHandle s) = remainingActions s"
  "pendingAction (clearTimeoutHandle s) = pendingAction s"
  by (simp_all add: clearTimeoutHandle_def split: option.splits)

lemma clearGatherTimeout_simps [simp]:
  "isDestroyed (clearGatherTimeout s) = isDestroyed s"
  "outbound (clearGatherTimeout s) = outbound s"
  "timeoutHandle (clearGatherTimeout s) = timeoutHandle s"
  "gatherTimeout (gatherInstance (clearGatherTimeout s)) = None"
  "running (gatherInstance (clearGatherTimeout s)) = running (gatherInstance s)"
  "isPlaying (clearGatherTimeout s) = isPlaying s"
  "playbackId (clearGatherTimeout s) = playbackId s"
  "channelId (clearGatherTimeout s) = channelId s"
  by (simp_all add: clearGatherTimeout_def split: option.splits)

lemma request_simps [simp]:
  "isDestroyed (request r s) = isDestroyed s"
  "outbound (request r s) = outbound s @ [r]"
  "channelId (request r s) = channelId s"
  "timeoutHandle (request r s) = timeoutHandle s"
  "gatherInstance (request r s) = gatherInstance s"
  "isPlaying (request r s) = isPlaying s"
  "playbackId (request r s) = playbackId s"
  "armed (request r s) = armed s"
  by (simp_all add: request_def)

lemma destroy_idem: "destroy pbx (destroy pbx s) = destroy pbx s"
  by (simp add: destroy_def Let_def)

lemma destroy_when_destroyed: "isDestroyed s \<Longrightarrow> destroy pbx s = s"
  by (simp add: destroy_def)

lemma destroy_facts:
  "isDestroyed (destroy pbx s)"
  "\<not> isDestroyed s \<Longrightarrow> timeoutHandle (destroy pbx s) = None"
  "\<not> isDestroyed s \<Longrightarrow> gatherTimeout (gatherInstance (destroy pbx s)) = None"
  "\<not> isDestroyed s \<Longrightarrow> \<not> isPlaying (destroy pbx s)"
  "\<not> isDestroyed s \<Longrightarrow> playbackId (destroy pbx s) = []"
  "\<not> isDestroyed s \<Longrightarrow> outbound (destroy pbx s) = outbound s @ [ApiHangup (channelId s)]"
  by (simp_all add: destroy_def Let_def)

lemma destroy_disarms:
  assumes "\<not> isDestroyed s"
  shows "armed (destroy pbx s) =
     (\<lambda>h. if Some h = timeoutHandle s \<or> Some h = gatherTimeout (gatherInstance s)
          then None else armed s h)"
  using assms
  by (auto simp: destroy_def Let_def clearTimeoutHandle_def clearGatherTimeout_def request_def
      fun_eq_iff split: option.splits)

lemma destroy_latch: "isDestroyed s \<Longrightarrow> isDestroyed (destroy pbx s)"
  by (simp add: destroy_def)

lemma getActions_latch: "isDestroyed s \<Longrightarrow> isDestroyed (getActions pbx url params s)"
  by (simp add: getActions_def Let_def destroy_latch split: FetchResult.splits)

lemma setTimer_latch: "isDestroyed (snd (setTimer k s)) = isDestroyed s"
  by (simp add: setTimer_def)

lemma gather_latch: "isDestroyed s \<Longrightarrow> isDestroyed (gather attrib s)"
  by (simp add: gather_def Let_def setTimer_def split: prod.splits)

lemma hangup_latch: "isDestroyed s \<Longrightarrow> isDestroyed (hangup pbx s)"
  by (simp add: hangup_def Let_def destroy_latch)

lemma runAction_latch:
  "isDestroyed s \<Longrightarrow> runAction n pbx s = Some s' \<Longrightarrow> isDestroyed s'"
proof (induction n arbitrary: s s')
  case 0
  then show ?case by simp
next
  case (Suc n)
  note IH = Suc.IH[rotated]
  show ?case
  proof (cases "remainingActions s")
    case Nil
    with Suc.prems show ?thesis by simp
  next
    case (Cons a rest)
    with Suc.prems show ?thesis
      by (auto simp: Let_def setTimer_def gather_latch hangup_latch getActions_latch
          split: if_splits option.splits prod.splits dest!: IH)
  qed
qed


lemma finishGather_latch:
  "isDestroyed s \<Longrightarrow> finishGather n pbx s = Some s' \<Longrightarrow> isDestroyed s'"
  by (auto simp: finishGather_def Let_def getActions_latch
      split: if_splits option.splits dest!: runAction_latch[rotated])

lemma onDTMFReceived_latch:
  "isDestroyed s \<Longrightarrow> onDTMFReceived n pbx digit s = Some s' \<Longrightarrow> isDestroyed s'"
  by (auto simp: onDTMFReceived_def Let_def split: if_splits dest!: finishGather_latch[rotated])

lemma onPlaybackFinished_latch:
  "isDestroyed s \<Longrightarrow> onPlaybackFinished n pbx pb s = Some s' \<Longrightarrow> isDestroyed s'"
  by (auto simp: onPlaybackFinished_def Let_def setTimer_def getActions_latch
      split: if_splits option.splits prod.splits dest!: runAction_latch[rotated])

lemma handleTimeout_latch:
  "isDestroyed s \<Longrightarrow> handleTimeout n pbx s = Some s' \<Longrightarrow> isDestroyed s'"
  by (auto simp: handleTimeout_def setAction_def getActions_latch
      split: option.splits dest!: runAction_latch[rotated])

lemma timerFires_latch:
  "isDestroyed s \<Longrightarrow> timerFires n pbx h s = Some s' \<Longrightarrow> isDestroyed s'"
  by (auto simp: timerFires_def Let_def destroy_latch
      split: option.splits TimerCallback.splits if_splits dest!: handleTimeout_latch[rotated])

lemma dtmf_not_gathering:
  assumes "\<not> running (gatherInstance s)" "\<not> isPlaying s"
  shows "onDTMFReceived n pbx digit s =
     Some (case timeoutHandle s of
             None \<Rightarrow> s
           | Some h \<Rightarrow> s\<lparr>armed := (armed s)(h := None), timeoutHandle := None\<rparr>)"
  using assms by (simp add: onDTMFReceived_def Let_def clearTimeoutHandle_def split: option.splits)

text \<open>The call \<^verbatim>\<open>call_1\<close>, event by event.\<close>

lemmas channel_defs =
  start_def getActions_def addUuidToUrl_def destroy_def gather_def hangup_def
  onDTMFReceived_def onPlaybackFinished_def finishGather_def timerFires_def handleTimeout_def
  setAction_def clearTimeoutHandle_def clearGatherTimeout_def request_def setTimer_def
  newChannelManager_def truthy_def toNumber_def sublist_Cons_right Let_def

lemma call_1_starts:
  "start 3 scripted_pbx (Some ''http://localhost:3000/action/answer'') (newChannelManager ''call_1'')
     = Some prompt_playing"
  by (simp add: channel_defs eval_nat_numeral)

lemma call_1_prompt_ends:
  "onPlaybackFinished 0 scripted_pbx (Some ''call_1_1700000000000_k3f9'') prompt_playing
     = Some awaiting_digits"
  by (simp add: channel_defs)

lemma call_1_first_digit:
  "onDTMFReceived 0 scripted_pbx ''7'' awaiting_digits = Some one_digit_in"
  by (simp add: channel_defs)

lemma call_1_second_digit:
  "onDTMFReceived 2 scripted_pbx ''3'' one_digit_in = Some confirm_playing"
  by (simp add: channel_defs eval_nat_numeral)

lemma call_1_confirm_ends:
  "onPlaybackFinished 0 scripted_pbx (Some ''call_1_1700000009000_x7q2'') confirm_playing
     = Some confirm_played"
  by (simp add: channel_defs)

lemma call_1_barge_in:
  "onDTMFReceived 0 scripted_pbx ''7'' prompt_playing = Some barged_in"
  by (simp add: channel_defs)

lemma digit_after_destroy_run:
  "onDTMFReceived 2 scripted_pbx ''3'' (destroy scripted_pbx one_digit_in)
     = Some digit_after_destroy"
  by (simp add: channel_defs eval_nat_numeral)

lemma late_event_run:
  "onPlaybackFinished 0 scripted_pbx (Some ''call_1_1700000000000_k3f9'') barged_in
       = Some gather_timer_started"
  by (simp add: channel_defs)

text \<open>
  Claim C3, as the code has it. \<^verbatim>\<open>destroy\<close> sets the latch, and when the latch was not set
  before it clears both timer handles of the session, disarms exactly the timers these
  handles named, clears \<^verbatim>\<open>isPlaying\<close> and \<^verbatim>\<open>playbackId\<close> and issues one hangup. A second
  \<^verbatim>\<open>destroy\<close>, and any \<^verbatim>\<open>destroy\<close> of a session whose latch is set, changes nothing and
  issues nothing. No handler resets the latch: a DTMF digit, a playback-finished event or
  a timer that is handled to its end on a destroyed session leaves it destroyed. The
  handlers do not consult the latch, and of the events after \<^verbatim>\<open>destroy\<close> one case only is
  without effect: when \<^verbatim>\<open>destroy\<close> is called on a session that is not yet destroyed and in
  which no gather is running, a DTMF digit handled in the very state that this \<^verbatim>\<open>destroy\<close>
  leaves, as the next event and with no other handler under way, changes nothing and
  issues no request. Nothing more holds of later events: they can change the session, arm
  and cancel timers and issue requests.
\<close>

theorem destroy_latched:
  "isDestroyed (destroy pbx s)
   \<and> timeoutHandle (destroy pbx s) = (if isDestroyed s then timeoutHandle s else None)
   \<and> gatherTimeout (gatherInstance (destroy pbx s))
        = (if isDestroyed s then gatherTimeout (gatherInstance s) else None)
   \<and> (\<not> isDestroyed s \<longrightarrow>
        (\<forall>h. armed (destroy pbx s) h =
           (if Some h = timeoutHandle s \<or> Some h = gatherTimeout (gatherInstance s)
            then None else armed s h))
        \<and> \<not> isPlaying (destroy pbx s) \<and> playbackId (destroy pbx s) = []
        \<and> outbound (destroy pbx s) = outbound s @ [ApiHangup (channelId s)])
   \<and> destroy pbx (destroy pbx s) = destroy pbx s
   \<and> (isDestroyed s \<longrightarrow>
        destroy pbx s = s
        \<and> (\<forall>s'. onDTMFReceived n pbx digit s = Some s' \<longrightarrow> isDestroyed s')
        \<and> (\<forall>s'. onPlaybackFinished n pbx pb s = Some s' \<longrightarrow> isDestroyed s')
        \<and> (\<forall>s'. timerFires n pbx h s = Some s' \<longrightarrow> isDestroyed s'))
   \<and> (\<not> running (gatherInstance s) \<and> \<not> isDestroyed s \<longrightarrow>
        onDTMFReceived n pbx digit (destroy pbx s) = Some (destroy pbx s))"
proof (intro conjI impI allI)
  show "isDestroyed (destroy pbx s)" by (rule destroy_facts)
  show "timeoutHandle (destroy pbx s) = (if isDestroyed s then timeoutHandle s else None)"
    by (simp add: destroy_facts destroy_when_destroyed)
  show "gatherTimeout (gatherInstance (destroy pbx s))
        = (if isDestroyed s then gatherTimeout (gatherInstance s) else None)"
    by (simp add: destroy_facts destroy_when_destroyed)
  show "destroy pbx (destroy pbx s) = destroy pbx s" by (rule destroy_idem)
next
  fix h' assume "\<not> isDestroyed s"
  then show "armed (destroy pbx s) h' =
           (if Some h' = timeoutHandle s \<or> Some h' = gatherTimeout (gatherInstance s)
            then None else armed s h')"
    by (simp add: destroy_disarms)
next
  assume "\<not> isDestroyed s"
  then show "\<not> isPlaying (destroy pbx s)" "playbackId (destroy pbx s) = []"
    "outbound (destroy pbx s) = outbound s @ [ApiHangup (channelId s)]"
    by (simp_all add: destroy_facts)
next
  assume D: "isDestroyed s"
  then show "destroy pbx s = s" by (rule destroy_when_destroyed)
  show "isDestroyed s'" if "onDTMFReceived n pbx digit s = Some s'" for s'
    using D that by (rule onDTMFReceived_latch)
  show "isDestroyed s'" if "onPlaybackFinished n pbx pb s = Some s'" for s'
    using D that by (rule onPlaybackFinished_latch)
  show "isDestroyed s'" if "timerFires n pbx h s = Some s'" for s'
    using D that by (rule timerFires_latch)
next
  assume A: "\<not> running (gatherInstance s) \<and> \<not> isDestroyed s"
  then have "\<not> running (gatherInstance (destroy pbx s))"
    by (simp add: destroy_def Let_def)
  moreover have "\<not> isPlaying (destroy pbx s)" "timeoutHandle (destroy pbx s) = None"
    using A by (simp_all add: destroy_facts)
  ultimately show "onDTMFReceived n pbx digit (destroy pbx s) = Some (destroy pbx s)"
    by (simp add: dtmf_not_gathering)
qed

text \<open>
  The call after its \<^verbatim>\<open>confirm\<close> prompt: \<^verbatim>\<open>destroy\<close> disarms the post-playback timer and
  hangs up, and a second \<^verbatim>\<open>destroy\<close> and a digit change nothing. The call destroyed after
  its first digit stays destroyed when the second digit arrives.
\<close>

theorem destroy_latched_witness:
  "\<not> isDestroyed confirm_played
   \<and> \<not> running (gatherInstance confirm_played)
   \<and> isDestroyed (destroy scripted_pbx confirm_played)
   \<and> armed (destroy scripted_pbx confirm_played) 2 = None
   \<and> outbound (destroy scripted_pbx confirm_played)
       = outbound confirm_played @ [ApiHangup ''call_1'']
   \<and> destroy scripted_pbx (destroy scripted_pbx confirm_played)
       = destroy scripted_pbx confirm_played
   \<and> onDTMFReceived 0 scripted_pbx ''5'' (destroy scripted_pbx confirm_played)
       = Some (destroy scripted_pbx confirm_played)
   \<and> isDestroyed (destroy scripted_pbx one_digit_in)
   \<and> isDestroyed digit_after_destroy"
proof -
  have live: "\<not> isDestroyed confirm_played"
    and quiet: "\<not> running (gatherInstance confirm_played) \<and> \<not> isDestroyed confirm_played"
    by simp_all
  note fresh = destroy_latched [of scripted_pbx confirm_played 0 "''5''" None 0]
  have a: "isDestroyed (destroy scripted_pbx confirm_played)"
    using fresh by (rule conjunct1)
  note part4 = fresh[THEN conjunct2, THEN conjunct2, THEN conjunct2, THEN conjunct1,
      rule_format, OF live]
  have b: "armed (destroy scripted_pbx confirm_played) 2 = None"
    using part4[THEN conjunct1, rule_format, of 2] by simp
  have c: "outbound (destroy scripted_pbx confirm_played)
       = outbound confirm_played @ [ApiHangup ''call_1'']"
    using part4[THEN conjunct2, THEN conjunct2, THEN conjunct2] by simp
  note rest = fresh[THEN conjunct2, THEN conjunct2, THEN conjunct2, THEN conjunct2]
  have d: "destroy scripted_pbx (destroy scripted_pbx confirm_played)
       = destroy scripted_pbx confirm_played"
    using rest by (rule conjunct1)
  have e: "onDTMFReceived 0 scripted_pbx ''5'' (destroy scripted_pbx confirm_played)
       = Some (destroy scripted_pbx confirm_played)"
    using rest[THEN conjunct2, THEN conjunct2, rule_format, OF quiet] .
  note gone = destroy_latched [of scripted_pbx "destroy scripted_pbx one_digit_in" 2 "''3''"
      None 0]
  have f: "isDestroyed (destroy scripted_pbx one_digit_in)"
    using destroy_latched [of scripted_pbx one_digit_in 0 "''5''" None 0]
    by (rule conjunct1)
  have g: "isDestroyed digit_after_destroy"
    using gone[THEN conjunct2, THEN conjunct2, THEN conjunct2, THEN conjunct2, THEN conjunct2,
        THEN conjunct1, rule_format, OF f, THEN conjunct2, THEN conjunct1, rule_format,
        OF digit_after_destroy_run] .
  show ?thesis using live quiet a b c d e f g by blast
qed

text \<open>
  The claim as stated fails. The call is started, its prompt ends, the first of two
  digits arrives, and the session is destroyed. The second digit then completes the
  gather: the session fetches the next action script and plays it, and the timer armed by
  that play fires afterwards.
\<close>

theorem destroy_final_counterexample:
  "start 3 scripted_pbx (Some ''http://localhost:3000/action/answer'') (newChannelManager ''call_1'')
     = Some prompt_playing
   \<and> onPlaybackFinished 0 scripted_pbx (Some ''call_1_1700000000000_k3f9'') prompt_playing
       = Some awaiting_digits
   \<and> onDTMFReceived 0 scripted_pbx ''7'' awaiting_digits = Some one_digit_in
   \<and> isDestroyed (destroy scripted_pbx one_digit_in)
   \<and> outbound (destroy scripted_pbx one_digit_in) = outbound one_digit_in @ [ApiHangup ''call_1'']
   \<and> armed (destroy scripted_pbx one_digit_in) = Map.empty
   \<and> onDTMFReceived 2 scripted_pbx ''3'' (destroy scripted_pbx one_digit_in)
       = Some digit_after_destroy
   \<and> outbound digit_after_destroy
       = outbound (destroy scripted_pbx one_digit_in)
         @ [FetchActionXML ''http://localhost:3000/action/gather?uuid=call_1''
              (noAttributes\<lparr>attr_Digits := Some ''73''\<rparr>),
            ApiPlay ''call_1'' ''custom/venmo/confirm'' ''call_1_1700000009000_x7q2'']
   \<and> armed digit_after_destroy 1 = Some PlayTimeout
   \<and> timerFires 1 scripted_pbx 1 digit_after_destroy
       = Some (digit_after_destroy\<lparr>armed := Map.empty\<rparr>)"
  using call_1_starts call_1_prompt_ends call_1_first_digit digit_after_destroy_run
  by (simp add: destroy_def clearTimeoutHandle_def clearGatherTimeout_def request_def
      timerFires_def handleTimeout_def Let_def)

text \<open>
  Claim C6, as the code has it. A playback-finished event is ignored, the session being
  left exactly as it was, when its playback id is not empty, the playback id of the session
  is not empty either, and the two differ.
\<close>

theorem late_playback_guard:
  "pbId \<noteq> [] \<and> playbackId s \<noteq> [] \<and> pbId \<noteq> playbackId s \<longrightarrow>
     onPlaybackFinished n pbx (Some pbId) s = Some s"
  by (simp add: onPlaybackFinished_def truthy_def)

text \<open>
  The playback-finished event of the \<^verbatim>\<open>answer\<close> prompt, arriving while the \<^verbatim>\<open>confirm\<close>
  prompt is playing, is ignored.
\<close>

theorem late_playback_guard_witness:
  "playbackId confirm_playing = ''call_1_1700000009000_x7q2''
   \<and> onPlaybackFinished 0 scripted_pbx (Some ''call_1_1700000000000_k3f9'') confirm_playing
       = Some confirm_playing"
  using late_playback_guard [of "''call_1_1700000000000_k3f9''" confirm_playing 0 scripted_pbx]
  by simp

text \<open>
  The claim as stated fails when the session has no current playback id. The call is
  started and its first digit interrupts the prompt, which empties the playback id of the
  session. The playback-finished event of the interrupted prompt carries a non-empty id
  that differs from it, and is not ignored: it arms the gather timer.
\<close>

theorem late_playback_guard_counterexample:
  "start 3 scripted_pbx (Some ''http://localhost:3000/action/answer'') (newChannelManager ''call_1'')
     = Some prompt_playing
   \<and> onDTMFReceived 0 scripted_pbx ''7'' prompt_playing = Some barged_in
   \<and> playbackId barged_in = []
   \<and> onPlaybackFinished 0 scripted_pbx (Some ''call_1_1700000000000_k3f9'') barged_in
       = Some gather_timer_started
   \<and> gather_timer_started \<noteq> barged_in
   \<and> armed barged_in 0 = None
   \<and> armed gather_timer_started 0 = Some GatherTimeout"
  using call_1_starts call_1_barge_in late_event_run
  by simp

text \<open>
  Claim C7, as the code has it. A DTMF digit delivered while no gather is running and
  nothing is playing issues no request and leaves the session as it was, except that the
  post-playback timer, when the session holds one, is cancelled and its handle cleared.
\<close>

theorem dropped_digit_effect:
  "\<not> running (gatherInstance s) \<and> \<not> isPlaying s \<longrightarrow>
     onDTMFReceived n pbx digit s =
       Some (case timeoutHandle s of
               None \<Rightarrow> s
             | Some h \<Rightarrow> s\<lparr>armed := (armed s)(h := None), timeoutHandle := None\<rparr>)"
  using dtmf_not_gathering by blast

text \<open>The digit 5 for the call that waits for its post-playback timer after \<^verbatim>\<open>confirm\<close>.\<close>

theorem dropped_digit_effect_witness:
  "\<not> running (gatherInstance confirm_played)
   \<and> \<not> isPlaying confirm_played
   \<and> map_option outbound (onDTMFReceived 0 scripted_pbx ''5'' confirm_played)
       = Some (outbound confirm_played)
   \<and> map_option gatherInstance (onDTMFReceived 0 scripted_pbx ''5'' confirm_played)
       = Some (gatherInstance confirm_played)
   \<and> map_option timeoutHandle (onDTMFReceived 0 scripted_pbx ''5'' confirm_played)
       = Some None"
  using dropped_digit_effect [of confirm_played 0 scripted_pbx "''5''"]
  by simp

text \<open>
  The claim as stated fails. The call reaches \<^verbatim>\<open>confirm\<close> with its second digit, the
  prompt ends and the post-playback timer is armed; no gather is running and nothing is
  playing. The digit 5 cancels that timer, so the session is not unchanged and the timer
  does not remain armed.
\<close>

theorem dropped_digit_counterexample:
  "onDTMFReceived 2 scripted_pbx ''3'' one_digit_in = Some confirm_playing
   \<and> onPlaybackFinished 0 scripted_pbx (Some ''call_1_1700000009000_x7q2'') confirm_playing
       = Some confirm_played
   \<and> \<not> running (gatherInstance confirm_played)
   \<and> \<not> isPlaying confirm_played
   \<and> armed confirm_played 2 = Some DestroyTimeout
   \<and> onDTMFReceived 0 scripted_pbx ''5'' confirm_played
       = Some (confirm_played\<lparr>armed := Map.empty, timeoutHandle := None\<rparr>)
   \<and> confirm_played\<lparr>armed := Map.empty, timeoutHandle := None\<rparr> \<noteq> confirm_played"
  using call_1_second_digit call_1_confirm_ends
  by (simp add: onDTMFReceived_def clearTimeoutHandle_def Let_def)

end
